theory Spec2Isabelle
  imports Main "HOL-Library.AList"
begin

section \<open>The OVN ML2 mechanism driver (networking_ovn/ml2/mech_driver.py)\<close>

text \<open>
  A shallow embedding of \<^verbatim>\<open>OVNMechanismDriver\<close>. Python dictionaries with a fixed
  set of keys are records, exceptions are values of the type \<open>error\<close>, and a method
  that can raise returns \<open>error + 'a\<close> (\<open>Inl\<close> the exception). Methods keep their
  names without the leading underscore. \<^verbatim>\<open>LOG\<close> calls are left out, except in
  \<open>set_port_status_down\<close>, where a claim speaks of the log.
\<close>

subsection \<open>Values, exceptions and constants of the libraries\<close>

text \<open>The values a binding profile (a JSON object) can hold.\<close>

datatype pyval = PStr string | PInt int | PBool bool | PNone | POther

text \<open>
  The message of an \<^verbatim>\<open>n_exc.InvalidInput\<close>, one constructor per message the driver
  formats.
\<close>

datatype invalid_input =
    NetworkTypeNotSupported string
  | AllRequired "string list"
  | TooManyParameters
  | InvalidType string pyval
  | TagOutOfRange int

datatype error =
    InvalidInput invalid_input
  | PortNotFound
  | DBReferenceError
  | RuntimeError
  | KeyError string
  | TypeError
  | OtherError string

text \<open>neutron's \<^verbatim>\<open>plugin_const.TYPE_*\<close>, \<^verbatim>\<open>portbindings.*\<close> and \<^verbatim>\<open>const.*\<close>.\<close>

definition TYPE_LOCAL :: string where "TYPE_LOCAL = ''local''"
definition TYPE_FLAT :: string where "TYPE_FLAT = ''flat''"
definition TYPE_GENEVE :: string where "TYPE_GENEVE = ''geneve''"
definition TYPE_VLAN :: string where "TYPE_VLAN = ''vlan''"
definition VNIC_NORMAL :: string where "VNIC_NORMAL = ''normal''"
definition PORT_STATUS_ACTIVE :: string where "PORT_STATUS_ACTIVE = ''ACTIVE''"
definition PORT_STATUS_DOWN :: string where "PORT_STATUS_DOWN = ''DOWN''"
definition VIF_TYPE_OVS :: string where "VIF_TYPE_OVS = ''ovs''"
definition VIF_TYPE_VHOST_USER :: string where "VIF_TYPE_VHOST_USER = ''vhostuser''"
definition CAP_PORT_FILTER :: string where "CAP_PORT_FILTER = ''port_filter''"
definition VHOST_USER_MODE :: string where "VHOST_USER_MODE = ''vhostuser_mode''"
definition VHOST_USER_MODE_CLIENT :: string where "VHOST_USER_MODE_CLIENT = ''client''"
definition VHOST_USER_OVS_PLUG :: string where "VHOST_USER_OVS_PLUG = ''vhostuser_ovs_plug''"
definition VHOST_USER_SOCKET :: string where "VHOST_USER_SOCKET = ''vhostuser_socket''"
definition RESOURCE_PORT :: string where "RESOURCE_PORT = ''port''"
definition L2_AGENT_ENTITY :: string where "L2_AGENT_ENTITY = ''L2''"

subsection \<open>Networks, segments, subnets and ports\<close>

text \<open>
  A network segment: \<^verbatim>\<open>segment[driver_api.ID]\<close>, \<^verbatim>\<open>segment['network_type']\<close>,
  \<^verbatim>\<open>segment['segmentation_id']\<close> and \<^verbatim>\<open>segment['physical_network']\<close>; the last two
  are \<^verbatim>\<open>None\<close> for a segment that has none.
\<close>

record segment =
  segment_id :: string
  network_type :: string
  segmentation_id :: "int option"
  physical_network :: "string option"

record fixed_ip =
  subnet_id :: string
  ip_address :: string

text \<open>
  The port dictionary. \<open>vnic_type\<close> is \<^verbatim>\<open>None\<close> when the key
  \<^verbatim>\<open>binding:vnic_type\<close> is absent; \<open>binding_profile\<close> is \<^verbatim>\<open>None\<close> when the key
  \<^verbatim>\<open>binding:profile\<close> is absent or not set (\<^verbatim>\<open>validators.is_attr_set\<close>), and a
  dictionary otherwise, held as an association list read with \<open>map_of\<close>;
  \<open>vif_details\<close> is \<^verbatim>\<open>None\<close> when the key \<^verbatim>\<open>binding:vif_details\<close> is absent.
  \<^verbatim>\<open>fixed_ips\<close> is a list, as neutron always supplies it.
\<close>

datatype vif_val = VBool bool | VStr string

record port =
  port_id :: string
  port_name :: string
  network_id :: string
  vnic_type :: "string option"
  status :: string
  device_owner :: "string option"
  admin_state_up :: bool
  mac_address :: string
  fixed_ips :: "fixed_ip list"
  binding_profile :: "(string \<times> pyval) list option"
  vif_details :: "(string \<times> vif_val) list option"

subsection \<open>The OVN northbound database and its commands\<close>

text \<open>
  The dictionary \<^verbatim>\<open>get_ovn_dhcp_options\<close> builds for a subnet, and a row of the
  \<^verbatim>\<open>DHCP_Options\<close> table as \<^verbatim>\<open>get_subnets_dhcp_options\<close> returns it (the same keys and
  \<^verbatim>\<open>'uuid'\<close>).
\<close>

record dhcp_options =
  cidr :: string
  options :: "string \<rightharpoonup> string"
  external_ids :: "string \<rightharpoonup> string"

record dhcp_row = dhcp_options +
  uuid :: string

text \<open>
  The \<^verbatim>\<open>addrs_add\<close> and \<^verbatim>\<open>addrs_remove\<close> arguments of \<^verbatim>\<open>update_address_set\<close>: the driver
  passes \<^verbatim>\<open>None\<close>, a list of addresses or a Python set of addresses.
\<close>

datatype addrs = AddrsNone | AddrsList "string list" | AddrsSet "string set"

text \<open>
  What the port's \<^verbatim>\<open>dhcpv4_options\<close>/\<^verbatim>\<open>dhcpv6_options\<close> column is set to: \<^verbatim>\<open>[]\<close>, the
  result of adding the pending \<^verbatim>\<open>add_dhcp_options\<close> command to the transaction, or
  \<^verbatim>\<open>[uuid]\<close> of an existing row.
\<close>

datatype add_dhcp_options = AddDhcpOptionsCommand string string dhcp_options

datatype dhcp_ref = NoDhcp | PendingDhcp add_dhcp_options | DhcpUuid string

text \<open>The keyword arguments of \<^verbatim>\<open>create_lswitch_port\<close> and \<^verbatim>\<open>set_lswitch_port\<close>.\<close>

record lsp_columns =
  lport_name :: string
  lsp_external_ids :: "(string \<times> string) list"
  lsp_parent_name :: "pyval option"
  lsp_tag :: "pyval option"
  lsp_options :: "(string \<times> string) list"
  lsp_enabled :: bool
  lsp_port_security :: "string list"
  lsp_dhcpv4_options :: dhcp_ref
  lsp_dhcpv6_options :: dhcp_ref

text \<open>An ACL is the keyword dictionary \<^verbatim>\<open>ovn_acl.add_acls\<close> returns for \<^verbatim>\<open>add_acl\<close>.\<close>

type_synonym acl = "(string \<times> string) list"

text \<open>
  The commands the driver adds to a transaction. \<open>UpdateAddressSet\<close> carries the
  \<^verbatim>\<open>if_exists\<close> argument as an option: \<^verbatim>\<open>None\<close> when the call leaves it to the
  command's default. \<open>SetLswitchPort\<close> carries the \<^verbatim>\<open>type\<close> and \<^verbatim>\<open>addresses\<close>
  columns only when \<^verbatim>\<open>columns_dict\<close> holds them.
\<close>

datatype nb_cmd =
    AddDhcpOptions add_dhcp_options
  | CreateLswitchPort string lsp_columns string "string list"
  | SetLswitchPort lsp_columns "(string \<times> string list) option"
  | AddAcl acl
  | UpdateAcls "string list" "port list" "(string \<times> acl list) list"
  | UpdateAddressSet string addrs addrs "bool option"

text \<open>
  Modelled from the spec: the northbound database and the execution of a transaction
  live in \<^verbatim>\<open>networking_ovn.ovsdb\<close>, which is not among the sources. The spec gives
  the store logical switch ports, ACLs, address sets and DHCP-options rows, says that
  all commands of one transaction are applied atomically, and that a write error
  propagates; the comment in \<^verbatim>\<open>create_port_in_ovn\<close> says that an address-set update
  with \<^verbatim>\<open>if_exists=False\<close> fails when the address set does not exist, and the comment
  in \<^verbatim>\<open>_update_port_in_ovn\<close> says the same of \<^verbatim>\<open>set_lswitch_port\<close> and the port.
\<close>

record ovn_nb =
  lswitch_ports :: "(string \<times> lsp_columns) list"
  acls :: "acl list"
  dhcp_options_rows :: "add_dhcp_options list"
  address_sets :: "string \<rightharpoonup> string set"

fun addrs_set :: "addrs \<Rightarrow> string set" where
  "addrs_set AddrsNone = {}"
| "addrs_set (AddrsList xs) = set xs"
| "addrs_set (AddrsSet s) = s"

fun exec_cmd :: "ovn_nb \<Rightarrow> nb_cmd \<Rightarrow> error + ovn_nb" where
  "exec_cmd nb (AddDhcpOptions c) =
     Inr (nb\<lparr>dhcp_options_rows := c # dhcp_options_rows nb\<rparr>)"
| "exec_cmd nb (CreateLswitchPort lswitch cols ty addresses) =
     Inr (nb\<lparr>lswitch_ports := (lport_name cols, cols) # lswitch_ports nb\<rparr>)"
| "exec_cmd nb (SetLswitchPort cols extra) =
     (if lport_name cols \<in> fst ` set (lswitch_ports nb)
      then Inr (nb\<lparr>lswitch_ports :=
                  AList.update (lport_name cols) cols (lswitch_ports nb)\<rparr>)
      else Inl RuntimeError)"
| "exec_cmd nb (AddAcl a) = Inr (nb\<lparr>acls := a # acls nb\<rparr>)"
| "exec_cmd nb (UpdateAcls nets ports new_acls) =
     Inr (nb\<lparr>acls := concat (map snd new_acls) @ acls nb\<rparr>)"
| "exec_cmd nb (UpdateAddressSet n add rem if_exists) =
     (case address_sets nb n of
        None \<Rightarrow> if if_exists = Some False then Inl RuntimeError else Inr nb
      | Some s \<Rightarrow>
          Inr (nb\<lparr>address_sets :=
                 (address_sets nb)(n \<mapsto> (s - addrs_set rem) \<union> addrs_set add)\<rparr>))"

fun exec_cmds :: "ovn_nb \<Rightarrow> nb_cmd list \<Rightarrow> error + ovn_nb" where
  "exec_cmds nb [] = Inr nb"
| "exec_cmds nb (c # cs) =
     (case exec_cmd nb c of Inl e \<Rightarrow> Inl e | Inr nb' \<Rightarrow> exec_cmds nb' cs)"

text \<open>
  \<^verbatim>\<open>with self._nb_ovn.transaction(check_error=True) as txn\<close>: the commands added in
  the block are applied together on leaving it, or not at all.
\<close>

definition transaction :: "ovn_nb \<Rightarrow> nb_cmd list \<Rightarrow> (error + unit) \<times> ovn_nb" where
  "transaction nb cmds =
     (case exec_cmds nb cmds of Inl e \<Rightarrow> (Inl e, nb) | Inr nb' \<Rightarrow> (Inr (), nb'))"

subsection \<open>Network validation\<close>

definition is_network_type_supported :: "string \<Rightarrow> bool" where
  "is_network_type_supported nt =
     (nt \<in> set [TYPE_LOCAL, TYPE_FLAT, TYPE_GENEVE, TYPE_VLAN])"

fun validate_network_segments :: "segment list \<Rightarrow> error + unit" where
  "validate_network_segments [] = Inr ()"
| "validate_network_segments (s # ss) =
     (if \<not> is_network_type_supported (network_type s)
      then Inl (InvalidInput (NetworkTypeNotSupported (network_type s)))
      else validate_network_segments ss)"

record network_context =
  network_segments :: "segment list"

text \<open>
  The precommit hooks run inside neutron's transaction; the northbound database is
  threaded through them to show what they leave of it.
\<close>

definition create_network_precommit ::
    "ovn_nb \<Rightarrow> network_context \<Rightarrow> (error + unit) \<times> ovn_nb" where
  "create_network_precommit nb context =
     (validate_network_segments (network_segments context), nb)"

definition update_network_precommit ::
    "ovn_nb \<Rightarrow> network_context \<Rightarrow> (error + unit) \<times> ovn_nb" where
  "update_network_precommit nb context =
     (validate_network_segments (network_segments context), nb)"

subsection \<open>The provisioning-block gate\<close>

text \<open>
  \<^verbatim>\<open>self.supported_vnic_types\<close>, as \<^verbatim>\<open>_setup_vif_port_bindings\<close> sets it.
\<close>

definition supported_vnic_types :: "string list" where
  "supported_vnic_types = [VNIC_NORMAL]"

text \<open>\<^verbatim>\<open>not s\<close> for a value that is \<^verbatim>\<open>None\<close> or a string: it holds of \<^verbatim>\<open>None\<close> and of \<^verbatim>\<open>''\<close>.\<close>

definition falsy_str :: "string option \<Rightarrow> bool" where
  "falsy_str h = (h = None \<or> h = Some [])"

text \<open>
  \<open>chassis_exists\<close> is \<^verbatim>\<open>self._sb_ovn.chassis_exists\<close>, the southbound database's
  answer. The host and the original host are \<^verbatim>\<open>None\<close> or a string.
\<close>

definition is_port_provisioning_required ::
    "(string \<Rightarrow> bool) \<Rightarrow> port \<Rightarrow> string option \<Rightarrow> string option \<Rightarrow> bool" where
  "is_port_provisioning_required chassis_exists port host original_host =
     (let vnic = (case vnic_type port of None \<Rightarrow> VNIC_NORMAL | Some v \<Rightarrow> v) in
      if vnic \<notin> set supported_vnic_types then False
      else if status port = PORT_STATUS_ACTIVE then False
      else (case host of
              None \<Rightarrow> False
            | Some h \<Rightarrow>
                if h = [] then False
                else if host = original_host then False
                else if \<not> chassis_exists h then False
                else True))"

subsection \<open>Binding-profile validation\<close>

text \<open>The types a parameter of the binding profile is checked against.\<close>

datatype pytype = string_types | integer_types

text \<open>\<^verbatim>\<open>isinstance\<close>: a Python \<^verbatim>\<open>bool\<close> is an \<^verbatim>\<open>int\<close>.\<close>

fun isinstance :: "pyval \<Rightarrow> pytype \<Rightarrow> bool" where
  "isinstance (PStr s) string_types = True"
| "isinstance (PInt i) integer_types = True"
| "isinstance (PBool b) integer_types = True"
| "isinstance v t = False"

text \<open>
  \<^verbatim>\<open>int(v)\<close>. The driver calls it on the tag after the type check, so on an integer or
  a boolean; on the other values \<^verbatim>\<open>int\<close> raises (a string is not parsed here: no string
  reaches the call).
\<close>

fun py_int :: "pyval \<Rightarrow> error + int" where
  "py_int (PInt i) = Inr i"
| "py_int (PBool b) = Inr (if b then 1 else 0)"
| "py_int v = Inl TypeError"

text \<open>
  Modelled from the spec: \<^verbatim>\<open>ovn_const.OVN_PORT_BINDING_PROFILE_PARAMS\<close> is defined in
  \<^verbatim>\<open>networking_ovn.common.constants\<close>, which is not among the sources. The spec names
  the two mutually exclusive parameter sets, \<^verbatim>\<open>{parent_name, tag}\<close> and
  \<^verbatim>\<open>{vtep-physical-switch, vtep-logical-switch}\<close>, with an integer tag; the other
  parameters are strings. A parameter set maps each key to the type it is checked
  against (\<^verbatim>\<open>None\<close>: not checked).
\<close>

type_synonym param_set = "(string \<times> pytype option) list"

definition OVN_PORT_BINDING_PROFILE_PARAMS :: "param_set list" where
  "OVN_PORT_BINDING_PROFILE_PARAMS =
     [[(''parent_name'', Some string_types), (''tag'', Some integer_types)],
      [(''vtep-physical-switch'', Some string_types),
       (''vtep-logical-switch'', Some string_types)]]"

text \<open>\<^verbatim>\<open>len(d)\<close> of the dictionary an association list stands for.\<close>

definition dict_len :: "('k \<times> 'v) list \<Rightarrow> nat" where
  "dict_len d = length (remdups (map fst d))"

text \<open>
  The inner loop: \<^verbatim>\<open>param_dict[param_key] = profile[param_key]\<close> for every key of the
  parameter set the profile has.
\<close>

fun copy_params ::
    "(string \<times> pyval) list \<Rightarrow> string list \<Rightarrow> (string \<times> pyval) list
       \<Rightarrow> (string \<times> pyval) list" where
  "copy_params profile [] param_dict = param_dict"
| "copy_params profile (k # ks) param_dict =
     (case map_of profile k of
        None \<Rightarrow> copy_params profile ks param_dict
      | Some v \<Rightarrow> copy_params profile ks (AList.update k v param_dict))"

text \<open>
  The loop over the parameter sets. It returns the exception raised, or the values of
  \<^verbatim>\<open>param_set\<close> and \<^verbatim>\<open>param_dict\<close> on leaving the loop, by \<^verbatim>\<open>break\<close> or at its end.
\<close>

fun select_param_set ::
    "(string \<times> pyval) list \<Rightarrow> param_set list \<Rightarrow> param_set \<Rightarrow> (string \<times> pyval) list
       \<Rightarrow> error + (param_set \<times> (string \<times> pyval) list)" where
  "select_param_set profile [] param_set param_dict = Inr (param_set, param_dict)"
| "select_param_set profile (ps # rest) param_set param_dict =
     (let param_keys = map fst ps;
          param_dict' = copy_params profile param_keys param_dict
      in if dict_len param_dict' = 0 then select_param_set profile rest ps param_dict'
         else if dict_len param_dict' \<noteq> length param_keys
           then Inl (InvalidInput (AllRequired param_keys))
         else if dict_len profile \<noteq> length param_keys
           then Inl (InvalidInput TooManyParameters)
         else Inr (ps, param_dict'))"

fun check_param_types :: "param_set \<Rightarrow> (string \<times> pyval) list \<Rightarrow> error + unit" where
  "check_param_types [] param_dict = Inr ()"
| "check_param_types ((param_key, None) # ps) param_dict =
     check_param_types ps param_dict"
| "check_param_types ((param_key, Some param_type) # ps) param_dict =
     (case map_of param_dict param_key of
        None \<Rightarrow> Inl (KeyError param_key)
      | Some param_value \<Rightarrow>
          if \<not> isinstance param_value param_type
          then Inl (InvalidInput (InvalidType param_key param_value))
          else check_param_types ps param_dict)"

text \<open>\<^verbatim>\<open>self._plugin.get_port(ctx, param_dict['parent_name'])\<close>, for the lookup only.\<close>

definition check_parent ::
    "(pyval \<Rightarrow> error + port) \<Rightarrow> param_set \<Rightarrow> (string \<times> pyval) list \<Rightarrow> error + unit" where
  "check_parent get_port param_set param_dict =
     (if ''parent_name'' \<in> fst ` set param_set
      then (case map_of param_dict ''parent_name'' of
              None \<Rightarrow> Inl (KeyError ''parent_name'')
            | Some v \<Rightarrow> (case get_port v of Inl e \<Rightarrow> Inl e | Inr p \<Rightarrow> Inr ()))
      else Inr ())"

definition check_tag :: "param_set \<Rightarrow> (string \<times> pyval) list \<Rightarrow> error + unit" where
  "check_tag param_set param_dict =
     (if ''tag'' \<in> fst ` set param_set
      then (case map_of param_dict ''tag'' of
              None \<Rightarrow> Inl (KeyError ''tag'')
            | Some v \<Rightarrow>
                (case py_int v of
                   Inl e \<Rightarrow> Inl e
                 | Inr tag \<Rightarrow>
                     if tag < 0 \<or> tag > 4095
                     then Inl (InvalidInput (TagOutOfRange tag))
                     else Inr ()))
      else Inr ())"

text \<open>
  \<open>get_port\<close> is the plugin's port lookup, applied to the value of \<^verbatim>\<open>parent_name\<close>.
  The parameter sets are an argument; the driver passes
  \<open>OVN_PORT_BINDING_PROFILE_PARAMS\<close>.
\<close>

definition validate_profile_with ::
    "param_set list \<Rightarrow> (pyval \<Rightarrow> error + port) \<Rightarrow> port
       \<Rightarrow> error + (string \<times> pyval) list" where
  "validate_profile_with params get_port port =
     (case binding_profile port of
        None \<Rightarrow> Inr []
      | Some profile \<Rightarrow>
          (case select_param_set profile params [] [] of
             Inl e \<Rightarrow> Inl e
           | Inr (param_set, param_dict) \<Rightarrow>
               if param_dict = [] then Inr []
               else (case check_param_types param_set param_dict of
                       Inl e \<Rightarrow> Inl e
                     | Inr u \<Rightarrow>
                         (case check_parent get_port param_set param_dict of
                            Inl e \<Rightarrow> Inl e
                          | Inr u \<Rightarrow>
                              (case check_tag param_set param_dict of
                                 Inl e \<Rightarrow> Inl e
                               | Inr u \<Rightarrow> Inr param_dict)))))"

definition validate_and_get_data_from_binding_profile ::
    "(pyval \<Rightarrow> error + port) \<Rightarrow> port \<Rightarrow> error + (string \<times> pyval) list" where
  "validate_and_get_data_from_binding_profile =
     validate_profile_with OVN_PORT_BINDING_PROFILE_PARAMS"

subsection \<open>Port precommit hooks\<close>

text \<open>
  neutron's database is the state \<open>'db\<close>; \<open>add_block\<close> is
  \<^verbatim>\<open>provisioning_blocks.add_provisioning_component\<close> applied to the port id, the
  resource kind and the entity. A call of neutron's returns the exception it raised or
  its value, and the database it leaves.
\<close>

type_synonym 'db add_block = "'db \<Rightarrow> string \<Rightarrow> string \<Rightarrow> string \<Rightarrow> (error + unit) \<times> 'db"

definition insert_port_provisioning_block ::
    "'db add_block \<Rightarrow> 'db \<Rightarrow> port \<Rightarrow> (error + unit) \<times> 'db" where
  "insert_port_provisioning_block add_block db port =
     add_block db (port_id port) RESOURCE_PORT L2_AGENT_ENTITY"

record port_context =
  current :: port
  host :: "string option"
  original_host :: "string option"
  segments_to_bind :: "segment list"
  set_binding_calls :: "(string \<times> string \<times> (string \<times> vif_val) list) list"

definition create_port_precommit ::
    "(pyval \<Rightarrow> error + port) \<Rightarrow> (string \<Rightarrow> bool) \<Rightarrow> 'db add_block \<Rightarrow> 'db
       \<Rightarrow> port_context \<Rightarrow> (error + unit) \<times> 'db" where
  "create_port_precommit get_port chassis_exists add_block db context =
     (let port = current context in
      case validate_and_get_data_from_binding_profile get_port port of
        Inl e \<Rightarrow> (Inl e, db)
      | Inr d \<Rightarrow>
          if is_port_provisioning_required chassis_exists port (host context) None
          then insert_port_provisioning_block add_block db port
          else (Inr (), db))"

definition update_port_precommit ::
    "(pyval \<Rightarrow> error + port) \<Rightarrow> (string \<Rightarrow> bool) \<Rightarrow> 'db add_block \<Rightarrow> 'db
       \<Rightarrow> port_context \<Rightarrow> (error + unit) \<times> 'db" where
  "update_port_precommit get_port chassis_exists add_block db context =
     (let port = current context in
      case validate_and_get_data_from_binding_profile get_port port of
        Inl e \<Rightarrow> (Inl e, db)
      | Inr d \<Rightarrow>
          if is_port_provisioning_required chassis_exists port (host context)
               (original_host context)
          then insert_port_provisioning_block add_block db port
          else (Inr (), db))"

subsection \<open>DHCP options of a subnet\<close>

record route =
  destination :: string
  nexthop :: string

text \<open>
  The subnet dictionary; \<open>gateway_ip\<close> and \<open>ipv6_address_mode\<close> are \<^verbatim>\<open>None\<close> when
  unset. The network dictionary is read for its \<^verbatim>\<open>mtu\<close> only.
\<close>

record subnet =
  sn_id :: string
  sn_cidr :: string
  gateway_ip :: "string option"
  enable_dhcp :: bool
  ip_version :: nat
  dns_nameservers :: "string list"
  host_routes :: "route list"
  ipv6_address_mode :: "string option"

record network =
  mtu :: int

definition IP_VERSION_4 :: nat where "IP_VERSION_4 = 4"
definition IP_VERSION_6 :: nat where "IP_VERSION_6 = 6"
definition DHCPV6_STATELESS :: string where "DHCPV6_STATELESS = ''dhcpv6-stateless''"

text \<open>
  \<^verbatim>\<open>ovn_const.DHCPV6_STATELESS_OPT\<close>, of \<^verbatim>\<open>networking_ovn.common.constants\<close> (not among
  the sources): the name of the option that marks a stateless DHCPv6 row.
\<close>

definition DHCPV6_STATELESS_OPT :: string where
  "DHCPV6_STATELESS_OPT = ''dhcpv6_stateless''"

text \<open>\<^verbatim>\<open>str(n)\<close> of an integer, in decimal.\<close>

fun str_nat :: "nat \<Rightarrow> string" where
  "str_nat n =
     (if n < 10 then [char_of (48 + n)]
      else str_nat (n div 10) @ [char_of (48 + n mod 10)])"

declare str_nat.simps [simp del]

definition str_int :: "int \<Rightarrow> string" where
  "str_int i = (if i < 0 then CHR ''-'' # str_nat (nat (- i)) else str_nat (nat i))"

text \<open>\<^verbatim>\<open>sep.join(xs)\<close>.\<close>

fun join :: "string \<Rightarrow> string list \<Rightarrow> string" where
  "join sep [] = []"
| "join sep [x] = x"
| "join sep (x # y # ys) = x @ sep @ join sep (y # ys)"

text \<open>
  The loop that renders the host routes: \<^verbatim>\<open>classless_static_routes += "%s,%s, " % (destination, nexthop)\<close>,
  starting from \<^verbatim>\<open>"{"\<close>.
\<close>

fun add_routes :: "string \<Rightarrow> route list \<Rightarrow> string" where
  "add_routes acc [] = acc"
| "add_routes acc (r # rs) =
     add_routes (acc @ destination r @ '','' @ nexthop r @ '', '') rs"

text \<open>
  \<open>lease_time\<close> is \<^verbatim>\<open>config.get_ovn_dhcp_default_lease_time()\<close> and \<open>random_mac\<close> the
  address \<^verbatim>\<open>n_net.get_random_mac\<close> returns in this call.
\<close>

definition get_ovn_dhcpv4_opts ::
    "int \<Rightarrow> string \<Rightarrow> subnet \<Rightarrow> network \<Rightarrow> string option \<Rightarrow> (string \<rightharpoonup> string)" where
  "get_ovn_dhcpv4_opts lease_time random_mac subnet network server_mac =
     (case gateway_ip subnet of
        None \<Rightarrow> Map.empty
      | Some gw \<Rightarrow>
          if gw = [] then Map.empty
          else
            (let options0 =
                   [''server_id'' \<mapsto> gw, ''lease_time'' \<mapsto> str_int lease_time,
                    ''mtu'' \<mapsto> str_int (mtu network), ''router'' \<mapsto> gw];
                 options1 =
                   (case server_mac of
                      None \<Rightarrow> options0(''server_mac'' \<mapsto> random_mac)
                    | Some m \<Rightarrow>
                        if m = [] then options0(''server_mac'' \<mapsto> random_mac)
                        else options0(''server_mac'' \<mapsto> m));
                 options2 =
                   (if dns_nameservers subnet \<noteq> []
                    then options1(''dns_server'' \<mapsto>
                           ''{'' @ join '', '' (dns_nameservers subnet) @ ''}'')
                    else options1);
                 classless_static_routes = add_routes ''{'' (host_routes subnet)
             in if classless_static_routes \<noteq> ''{''
                then options2(''classless_static_route'' \<mapsto>
                       classless_static_routes @ ''0.0.0.0/0,'' @ gw @ ''}'')
                else options2))"

definition get_ovn_dhcpv6_opts :: "string \<Rightarrow> subnet \<Rightarrow> (string \<rightharpoonup> string)" where
  "get_ovn_dhcpv6_opts random_mac subnet =
     (let dhcpv6_opts0 = [''server_id'' \<mapsto> random_mac];
          dhcpv6_opts1 =
            (if dns_nameservers subnet \<noteq> []
             then dhcpv6_opts0(''dns_server'' \<mapsto>
                    ''{'' @ join '', '' (dns_nameservers subnet) @ ''}'')
             else dhcpv6_opts0)
      in if ipv6_address_mode subnet = Some DHCPV6_STATELESS
         then dhcpv6_opts1(DHCPV6_STATELESS_OPT \<mapsto> ''true'')
         else dhcpv6_opts1)"

definition get_ovn_dhcp_options ::
    "int \<Rightarrow> string \<Rightarrow> subnet \<Rightarrow> network \<Rightarrow> string option \<Rightarrow> dhcp_options" where
  "get_ovn_dhcp_options lease_time random_mac subnet network server_mac =
     \<lparr>cidr = sn_cidr subnet,
      options =
        (if enable_dhcp subnet
         then (if ip_version subnet = IP_VERSION_4
               then get_ovn_dhcpv4_opts lease_time random_mac subnet network server_mac
               else get_ovn_dhcpv6_opts random_mac subnet)
         else Map.empty),
      external_ids = [''subnet_id'' \<mapsto> sn_id subnet]\<rparr>"

subsection \<open>DHCP options of a port\<close>

text \<open>
  \<open>ip_version_of\<close> is \<^verbatim>\<open>netaddr.IPAddress(a).version\<close>; \<open>port_subnets\<close> is the
  list \<^verbatim>\<open>subnets\<close> of the subnets of the port's fixed IPs of the IP version;
  \<open>get_subnets_dhcp_options\<close> is the northbound database's query for the subnet-level
  rows of a list of subnets.
\<close>

definition port_subnets :: "(string \<Rightarrow> nat) \<Rightarrow> port \<Rightarrow> nat \<Rightarrow> string list" where
  "port_subnets ip_version_of port ip_ver =
     map subnet_id
       (filter (\<lambda>f. ip_version_of (ip_address f) = ip_ver) (fixed_ips port))"

definition get_subnet_dhcp_options_for_port ::
    "(string \<Rightarrow> nat) \<Rightarrow> (string list \<Rightarrow> dhcp_row list) \<Rightarrow> port \<Rightarrow> nat
       \<Rightarrow> dhcp_row option" where
  "get_subnet_dhcp_options_for_port ip_version_of get_subnets_dhcp_options port ip_ver =
     (let subnets = port_subnets ip_version_of port ip_ver;
          get_opts = get_subnets_dhcp_options subnets
      in case get_opts of
           [] \<Rightarrow> None
         | first # others \<Rightarrow>
             if ip_ver = IP_VERSION_6
             then (case find (\<lambda>opts. options opts DHCPV6_STATELESS_OPT \<noteq> Some ''true'')
                          get_opts of
                     Some opts \<Rightarrow> Some opts
                   | None \<Rightarrow> Some first)
             else Some first)"

text \<open>What \<^verbatim>\<open>get_port_dhcp_options\<close> returns: \<^verbatim>\<open>None\<close>, a row, or \<^verbatim>\<open>{'cmd': command}\<close>.\<close>

datatype port_dhcp_options = DhcpNone | DhcpRow dhcp_row | DhcpCmd add_dhcp_options

text \<open>
  \<open>get_lsp_dhcp_opts\<close> is \<^verbatim>\<open>utils.get_lsp_dhcp_opts\<close> (of \<^verbatim>\<open>networking_ovn.common.utils\<close>,
  not among the sources): whether DHCP is disabled for the port at the IP version, and
  the port's extra options, a dictionary held as an association list.
\<close>

definition get_port_dhcp_options ::
    "(port \<Rightarrow> nat \<Rightarrow> bool \<times> (string \<times> string) list) \<Rightarrow> (string \<Rightarrow> nat)
       \<Rightarrow> (string list \<Rightarrow> dhcp_row list) \<Rightarrow> port \<Rightarrow> nat \<Rightarrow> error + port_dhcp_options" where
  "get_port_dhcp_options get_lsp_dhcp_opts ip_version_of get_subnets_dhcp_options port ip_ver =
     (case get_lsp_dhcp_opts port ip_ver of
        (lsp_dhcp_disabled, lsp_dhcp_opts) \<Rightarrow>
          if lsp_dhcp_disabled then Inr DhcpNone
          else
            (case get_subnet_dhcp_options_for_port ip_version_of get_subnets_dhcp_options
                    port ip_ver of
               None \<Rightarrow> Inr DhcpNone
             | Some subnet_dhcp_options \<Rightarrow>
                 if lsp_dhcp_opts = [] then Inr (DhcpRow subnet_dhcp_options)
                 else
                   (let opts = options subnet_dhcp_options ++ map_of lsp_dhcp_opts;
                        ext_ids = (external_ids subnet_dhcp_options)
                                    (''port_id'' \<mapsto> port_id port)
                    in case ext_ids ''subnet_id'' of
                         None \<Rightarrow> Inl (KeyError ''subnet_id'')
                       | Some sid \<Rightarrow>
                           Inr (DhcpCmd (AddDhcpOptionsCommand sid (port_id port)
                                  \<lparr>cidr = cidr subnet_dhcp_options, options = opts,
                                   external_ids = ext_ids\<rparr>)))))"

subsection \<open>Status reports of the OVN monitor\<close>

datatype log_entry = LogInfo string | LogDebug string

text \<open>
  The body of the \<^verbatim>\<open>try\<close> in \<^verbatim>\<open>set_port_status_down\<close>. \<open>get_port\<close> is the plugin's
  lookup by port id and \<open>update_port_status\<close> the plugin's status update.
\<close>

definition status_down_body ::
    "('db \<Rightarrow> string \<Rightarrow> error + port) \<Rightarrow> 'db add_block
       \<Rightarrow> ('db \<Rightarrow> string \<Rightarrow> string \<Rightarrow> (error + unit) \<times> 'db) \<Rightarrow> 'db \<Rightarrow> string
       \<Rightarrow> (error + unit) \<times> 'db" where
  "status_down_body get_port add_block update_port_status db pid =
     (case get_port db pid of
        Inl e \<Rightarrow> (Inl e, db)
      | Inr port \<Rightarrow>
          (case insert_port_provisioning_block add_block db port of
             (Inl e, db1) \<Rightarrow> (Inl e, db1)
           | (Inr u, db1) \<Rightarrow> update_port_status db1 (port_id port) PORT_STATUS_DOWN))"

text \<open>
  The result, the database and the log written. The \<^verbatim>\<open>except\<close> clause names
  \<^verbatim>\<open>os_db_exc.DBReferenceError\<close> and \<^verbatim>\<open>n_exc.PortNotFound\<close>.
\<close>

definition set_port_status_down ::
    "('db \<Rightarrow> string \<Rightarrow> error + port) \<Rightarrow> 'db add_block
       \<Rightarrow> ('db \<Rightarrow> string \<Rightarrow> string \<Rightarrow> (error + unit) \<times> 'db) \<Rightarrow> 'db \<Rightarrow> string
       \<Rightarrow> (error + unit) \<times> 'db \<times> log_entry list" where
  "set_port_status_down get_port add_block update_port_status db pid =
     (let log0 = [LogInfo (''OVN reports status down for port: '' @ pid)] in
      case status_down_body get_port add_block update_port_status db pid of
        (Inr u, db') \<Rightarrow> (Inr (), db', log0)
      | (Inl e, db') \<Rightarrow>
          if e = DBReferenceError \<or> e = PortNotFound
          then (Inr (), db',
                log0 @ [LogDebug (''Port not found during OVN status down report: '' @ pid)])
          else (Inl e, db', log0))"

subsection \<open>Port binding\<close>

text \<open>
  \<^verbatim>\<open>ovn_const.CHASSIS_DATAPATH_NETDEV\<close> and \<^verbatim>\<open>ovn_const.CHASSIS_IFACE_DPDKVHOSTUSER\<close>,
  of \<^verbatim>\<open>networking_ovn.common.constants\<close> (not among the sources): the userspace
  datapath type and the vhost-user interface type a chassis reports.
\<close>

definition CHASSIS_DATAPATH_NETDEV :: string where
  "CHASSIS_DATAPATH_NETDEV = ''netdev''"

definition CHASSIS_IFACE_DPDKVHOSTUSER :: string where
  "CHASSIS_IFACE_DPDKVHOSTUSER = ''dpdkvhostuser''"

text \<open>
  \<^verbatim>\<open>self.vif_details[vif_type]\<close>, as \<^verbatim>\<open>_setup_vif_port_bindings\<close> sets it; \<open>sg_enabled\<close>
  is \<^verbatim>\<open>self.sg_enabled\<close>.
\<close>

definition driver_vif_details :: "bool \<Rightarrow> string \<Rightarrow> (string \<times> vif_val) list" where
  "driver_vif_details sg_enabled vif_type =
     (if vif_type = VIF_TYPE_OVS then [(CAP_PORT_FILTER, VBool sg_enabled)]
      else [(CAP_PORT_FILTER, VBool False),
            (VHOST_USER_MODE, VStr VHOST_USER_MODE_CLIENT),
            (VHOST_USER_OVS_PLUG, VBool True)])"

text \<open>\<^verbatim>\<open>s.split(c)\<close>.\<close>

fun split_sep :: "char \<Rightarrow> string \<Rightarrow> string list" where
  "split_sep c [] = [[]]"
| "split_sep c (x # xs) =
     (if x = c then [] # split_sep c xs
      else (case split_sep c xs of
              [] \<Rightarrow> [[x]]
            | w # ws \<Rightarrow> (x # w) # ws))"

text \<open>
  What the driver reads of its configuration and helpers when binding:
  \<^verbatim>\<open>self.sg_enabled\<close>, \<^verbatim>\<open>config.get_ovn_vhost_sock_dir()\<close> and \<^verbatim>\<open>utils.ovn_vhu_sockpath\<close>.
\<close>

record bind_conf =
  sg_enabled :: bool
  vhost_sock_dir :: string
  ovn_vhu_sockpath :: "string \<Rightarrow> string \<Rightarrow> string"

text \<open>\<^verbatim>\<open>physical_network not in chassis_physnets\<close>; \<^verbatim>\<open>None\<close> is in no list of names.\<close>

definition physnet_absent :: "string option \<Rightarrow> string list \<Rightarrow> bool" where
  "physnet_absent physnet chassis_physnets =
     (case physnet of None \<Rightarrow> True | Some p \<Rightarrow> p \<notin> set chassis_physnets)"

text \<open>
  The \<^verbatim>\<open>else\<close> branch of the loop body: the vif type and details, and the call of
  \<^verbatim>\<open>context.set_binding\<close>, recorded in \<open>set_binding_calls\<close> in the order of the calls.
  On the vhost-user path the port's \<^verbatim>\<open>binding:vif_details\<close> is updated in place.
\<close>

definition bind_segment ::
    "bind_conf \<Rightarrow> string \<Rightarrow> string list \<Rightarrow> segment \<Rightarrow> port_context
       \<Rightarrow> error + port_context" where
  "bind_segment conf datapath_type iface_types segment_to_bind context =
     (let port = current context in
      if datapath_type = CHASSIS_DATAPATH_NETDEV
           \<and> CHASSIS_IFACE_DPDKVHOSTUSER \<in> set iface_types
      then
        (let vhost_user_socket =
               ovn_vhu_sockpath conf (vhost_sock_dir conf) (port_id port);
             vif_type = VIF_TYPE_VHOST_USER
         in case vif_details port of
              None \<Rightarrow> Inl (KeyError ''binding:vif_details'')
            | Some d \<Rightarrow>
                Inr (context
                  \<lparr>current := port\<lparr>vif_details :=
                      Some (AList.update VHOST_USER_SOCKET (VStr vhost_user_socket) d)\<rparr>,
                   set_binding_calls := set_binding_calls context @
                     [(segment_id segment_to_bind, vif_type,
                       AList.update VHOST_USER_SOCKET (VStr vhost_user_socket)
                         (driver_vif_details (sg_enabled conf) vif_type))]\<rparr>))
      else
        Inr (context
          \<lparr>set_binding_calls := set_binding_calls context @
             [(segment_id segment_to_bind, VIF_TYPE_OVS,
               driver_vif_details (sg_enabled conf) VIF_TYPE_OVS)]\<rparr>))"

text \<open>The loop \<^verbatim>\<open>for segment_to_bind in context.segments_to_bind\<close>.\<close>

fun bind_segments ::
    "bind_conf \<Rightarrow> string \<Rightarrow> string list \<Rightarrow> string list \<Rightarrow> segment list \<Rightarrow> port_context
       \<Rightarrow> error + port_context" where
  "bind_segments conf datapath_type iface_types chassis_physnets [] context = Inr context"
| "bind_segments conf datapath_type iface_types chassis_physnets (seg # segs) context =
     (if network_type seg \<in> set [''flat'', ''vlan'']
           \<and> physnet_absent (physical_network seg) chassis_physnets
      then bind_segments conf datapath_type iface_types chassis_physnets segs context
      else (case bind_segment conf datapath_type iface_types seg context of
              Inl e \<Rightarrow> Inl e
            | Inr context' \<Rightarrow>
                bind_segments conf datapath_type iface_types chassis_physnets segs
                  context'))"

text \<open>
  \<open>get_chassis_data\<close> is \<^verbatim>\<open>self._sb_ovn.get_chassis_data_for_ml2_bind_port\<close>: the datapath
  type, the comma-separated interface types and the physical networks of the host's
  chassis, or the exception raised (\<^verbatim>\<open>RuntimeError\<close> when the host has no chassis).
\<close>

definition bind_port ::
    "bind_conf \<Rightarrow> (string option \<Rightarrow> error + (string \<times> string \<times> string list))
       \<Rightarrow> port_context \<Rightarrow> error + port_context" where
  "bind_port conf get_chassis_data context =
     (let port = current context;
          vnic = (case vnic_type port of None \<Rightarrow> VNIC_NORMAL | Some v \<Rightarrow> v)
      in if vnic \<notin> set supported_vnic_types then Inr context
         else
           (case get_chassis_data (host context) of
              Inl e \<Rightarrow> if e = RuntimeError then Inr context else Inl e
            | Inr (datapath_type, iface_types, chassis_physnets) \<Rightarrow>
                bind_segments conf datapath_type
                  (if iface_types = [] then [] else split_sep CHR '','' iface_types)
                  chassis_physnets (segments_to_bind context) context))"

subsection \<open>Creating and updating a port in OVN\<close>

text \<open>
  The dictionary \<^verbatim>\<open>ovn_acl.acl_port_ips\<close> returns, with the keys \<^verbatim>\<open>'ip4'\<close> and \<^verbatim>\<open>'ip6'\<close>;
  \<open>ip_versions\<close> are its keys, in the order the model iterates over them.
\<close>

record acl_ips =
  ip4 :: "string list"
  ip6 :: "string list"

definition ip_versions :: "string list" where
  "ip_versions = [''ip4'', ''ip6'']"

definition ips_at :: "acl_ips \<Rightarrow> string \<Rightarrow> string list" where
  "ips_at addresses ip_ver = (if ip_ver = ''ip4'' then ip4 addresses else ip6 addresses)"

text \<open>
  The helpers of \<^verbatim>\<open>networking_ovn.common\<close> (\<^verbatim>\<open>utils\<close>, \<^verbatim>\<open>acl\<close>) and of the northbound
  client the two functions call; none is among the sources, so each is an argument:
  \<^verbatim>\<open>utils.get_lsp_security_groups(port)\<close>, \<^verbatim>\<open>ovn_acl.acl_port_ips(port)\<close>,
  \<^verbatim>\<open>utils.ovn_addrset_name(sg_id, ip_version)\<close>, \<^verbatim>\<open>ovn_acl.add_acls(...)\<close> for the port,
  \<^verbatim>\<open>utils.ovn_name(network_id)\<close> and \<^verbatim>\<open>get_router_port_options(port_id)\<close>.
\<close>

record helpers =
  get_lsp_security_groups :: "port \<Rightarrow> string list"
  acl_port_ips :: "port \<Rightarrow> acl_ips"
  ovn_addrset_name :: "string \<Rightarrow> string \<Rightarrow> string"
  add_acls :: "port \<Rightarrow> acl list"
  ovn_name :: "string \<Rightarrow> string"
  get_router_port_options :: "string \<Rightarrow> (string \<times> string) list"

text \<open>The named tuple \<^verbatim>\<open>OvnPortInfo\<close>.\<close>

record ovn_port_info =
  info_type :: string
  info_options :: "(string \<times> string) list"
  info_addresses :: "string list"
  info_port_security :: "string list"
  info_parent_name :: "pyval option"
  info_tag :: "pyval option"
  info_dhcpv4_options :: port_dhcp_options
  info_dhcpv6_options :: port_dhcp_options

text \<open>
  The three-way branch on \<^verbatim>\<open>ovn_port_info.dhcpv4_options\<close> (and \<^verbatim>\<open>dhcpv6_options\<close>): the
  commands added to the transaction and the value of the column.
\<close>

fun dhcp_column :: "port_dhcp_options \<Rightarrow> nb_cmd list \<times> dhcp_ref" where
  "dhcp_column DhcpNone = ([], NoDhcp)"
| "dhcp_column (DhcpCmd c) = ([AddDhcpOptions c], PendingDhcp c)"
| "dhcp_column (DhcpRow r) = ([], DhcpUuid (uuid r))"

text \<open>
  \<^verbatim>\<open>ovn_const.OVN_PORT_NAME_EXT_ID_KEY\<close>, of \<^verbatim>\<open>networking_ovn.common.constants\<close> (not
  among the sources): the key under which the port's name is kept.
\<close>

definition OVN_PORT_NAME_EXT_ID_KEY :: string where
  "OVN_PORT_NAME_EXT_ID_KEY = ''neutron:port_name''"

text \<open>
  A Python set is held as a list without duplicates. The source does not fix the order
  in which it iterates over a set (or over the keys of the address dictionary); the
  model takes the order of the list, and the theorems speak of the set of commands.
\<close>

definition py_set :: "'a list \<Rightarrow> 'a list" where
  "py_set xs = remdups xs"

text \<open>\<^verbatim>\<open>s or None\<close> for a set of addresses: the empty set is false.\<close>

definition set_or_none :: "string set \<Rightarrow> addrs" where
  "set_or_none s = (if s = {} then AddrsNone else AddrsSet s)"

text \<open>
  The commands \<^verbatim>\<open>create_port_in_ovn\<close> adds to its transaction, in order, and the
  function itself: the wait for the logical switch (\<open>check_lswitch\<close> is the northbound
  client's \<^verbatim>\<open>check_for_row_by_value_and_retry\<close> for the switch), then the transaction.
\<close>

definition create_port_in_ovn_cmds :: "helpers \<Rightarrow> port \<Rightarrow> ovn_port_info \<Rightarrow> nb_cmd list" where
  "create_port_in_ovn_cmds h port info =
     (let external_ids' = [(OVN_PORT_NAME_EXT_ID_KEY, port_name port)];
          lswitch_name = ovn_name h (network_id port);
          dhcpv4 = dhcp_column (info_dhcpv4_options info);
          dhcpv6 = dhcp_column (info_dhcpv6_options info);
          acls_new = add_acls h port;
          sg_ids = get_lsp_security_groups h port
      in fst dhcpv4 @ fst dhcpv6 @
         [CreateLswitchPort lswitch_name
            \<lparr>lport_name = port_id port, lsp_external_ids = external_ids',
             lsp_parent_name = info_parent_name info, lsp_tag = info_tag info,
             lsp_options = info_options info, lsp_enabled = admin_state_up port,
             lsp_port_security = info_port_security info,
             lsp_dhcpv4_options = snd dhcpv4, lsp_dhcpv6_options = snd dhcpv6\<rparr>
            (info_type info) (info_addresses info)] @
         map AddAcl acls_new @
         (if fixed_ips port \<noteq> [] \<and> sg_ids \<noteq> []
          then (let addresses = acl_port_ips h port in
                concat (map (\<lambda>sg_id.
                  concat (map (\<lambda>ip_ver.
                    if ips_at addresses ip_ver \<noteq> []
                    then [UpdateAddressSet (ovn_addrset_name h sg_id ip_ver)
                            (AddrsList (ips_at addresses ip_ver)) AddrsNone (Some False)]
                    else []) ip_versions)) sg_ids))
          else []))"

definition create_port_in_ovn ::
    "helpers \<Rightarrow> (ovn_nb \<Rightarrow> string \<Rightarrow> error + unit) \<Rightarrow> ovn_nb \<Rightarrow> port \<Rightarrow> ovn_port_info
       \<Rightarrow> (error + unit) \<times> ovn_nb" where
  "create_port_in_ovn h check_lswitch nb port info =
     (case check_lswitch nb (ovn_name h (network_id port)) of
        Inl e \<Rightarrow> (Inl e, nb)
      | Inr u \<Rightarrow> transaction nb (create_port_in_ovn_cmds h port info))"

text \<open>
  \<^verbatim>\<open>create_port_postcommit\<close>; \<open>info\<close> is the result of \<^verbatim>\<open>get_ovn_port_options(port)\<close>, or
  the exception it raised.
\<close>

definition create_port_postcommit ::
    "helpers \<Rightarrow> (ovn_nb \<Rightarrow> string \<Rightarrow> error + unit) \<Rightarrow> (port \<Rightarrow> error + ovn_port_info)
       \<Rightarrow> ovn_nb \<Rightarrow> port_context \<Rightarrow> (error + unit) \<times> ovn_nb" where
  "create_port_postcommit h check_lswitch get_ovn_port_options nb context =
     (let port = current context in
      case get_ovn_port_options port of
        Inl e \<Rightarrow> (Inl e, nb)
      | Inr info \<Rightarrow> create_port_in_ovn h check_lswitch nb port info)"

definition DEVICE_OWNER_ROUTER_INTF :: string where
  "DEVICE_OWNER_ROUTER_INTF = ''network:router_interface''"

definition DEVICE_OWNER_ROUTER_GW :: string where
  "DEVICE_OWNER_ROUTER_GW = ''network:router_gateway''"

text \<open>
  The address-set part of \<^verbatim>\<open>_update_port_in_ovn\<close>: the commands for the attached, the
  detached and the unchanged security groups.
\<close>

definition update_address_set_cmds ::
    "helpers \<Rightarrow> port \<Rightarrow> port \<Rightarrow> nb_cmd list" where
  "update_address_set_cmds h original_port port =
     (let old_sg_ids = py_set (get_lsp_security_groups h original_port);
          new_sg_ids = py_set (get_lsp_security_groups h port);
          detached_sg_ids = filter (\<lambda>x. x \<notin> set new_sg_ids) old_sg_ids;
          attached_sg_ids = filter (\<lambda>x. x \<notin> set old_sg_ids) new_sg_ids;
          is_fixed_ips_updated = (fixed_ips original_port \<noteq> fixed_ips port)
      in if length (fixed_ips port) \<noteq> 0 \<or> length (fixed_ips original_port) \<noteq> 0
         then
           (let addresses = acl_port_ips h port;
                addresses_old = acl_port_ips h original_port
            in concat (map (\<lambda>sg_id.
                 concat (map (\<lambda>ip_ver.
                   if ips_at addresses ip_ver \<noteq> []
                   then [UpdateAddressSet (ovn_addrset_name h sg_id ip_ver)
                           (AddrsList (ips_at addresses ip_ver)) AddrsNone None]
                   else []) ip_versions)) attached_sg_ids) @
               concat (map (\<lambda>sg_id.
                 concat (map (\<lambda>ip_ver.
                   if ips_at addresses_old ip_ver \<noteq> []
                   then [UpdateAddressSet (ovn_addrset_name h sg_id ip_ver)
                           AddrsNone (AddrsList (ips_at addresses_old ip_ver)) None]
                   else []) ip_versions)) detached_sg_ids) @
               (if is_fixed_ips_updated
                then (let unchanged_sg_ids = filter (\<lambda>x. x \<in> set old_sg_ids) new_sg_ids in
                      concat (map (\<lambda>sg_id.
                        concat (map (\<lambda>ip_ver.
                          (let addr_add =
                                 set_or_none (set (ips_at addresses ip_ver)
                                                - set (ips_at addresses_old ip_ver));
                               addr_remove =
                                 set_or_none (set (ips_at addresses_old ip_ver)
                                                - set (ips_at addresses ip_ver))
                           in if addr_add \<noteq> AddrsNone \<or> addr_remove \<noteq> AddrsNone
                              then [UpdateAddressSet (ovn_addrset_name h sg_id ip_ver)
                                      addr_add addr_remove None]
                              else [])) ip_versions)) unchanged_sg_ids))
                else []))
         else [])"

text \<open>The commands \<^verbatim>\<open>_update_port_in_ovn\<close> adds to its transaction, in order.\<close>

definition update_port_in_ovn_cmds ::
    "helpers \<Rightarrow> port \<Rightarrow> port \<Rightarrow> ovn_port_info \<Rightarrow> nb_cmd list" where
  "update_port_in_ovn_cmds h original_port port info =
     (let external_ids' = [(OVN_PORT_NAME_EXT_ID_KEY, port_name port)];
          router_port =
            (device_owner port = Some DEVICE_OWNER_ROUTER_INTF
               \<or> device_owner port = Some DEVICE_OWNER_ROUTER_GW);
          options' =
            (if router_port
             then foldl (\<lambda>d (k, v). AList.update k v d) (info_options info)
                    (get_router_port_options h (port_id port))
             else info_options info);
          columns_dict =
            (if router_port then None else Some (info_type info, info_addresses info));
          dhcpv4 = dhcp_column (info_dhcpv4_options info);
          dhcpv6 = dhcp_column (info_dhcpv6_options info);
          old_sg_ids = py_set (get_lsp_security_groups h original_port);
          new_sg_ids = py_set (get_lsp_security_groups h port);
          detached_sg_ids = filter (\<lambda>x. x \<notin> set new_sg_ids) old_sg_ids;
          attached_sg_ids = filter (\<lambda>x. x \<notin> set old_sg_ids) new_sg_ids;
          is_fixed_ips_updated = (fixed_ips original_port \<noteq> fixed_ips port)
      in fst dhcpv4 @ fst dhcpv6 @
         [SetLswitchPort
            \<lparr>lport_name = port_id port, lsp_external_ids = external_ids',
             lsp_parent_name = info_parent_name info, lsp_tag = info_tag info,
             lsp_options = options', lsp_enabled = admin_state_up port,
             lsp_port_security = info_port_security info,
             lsp_dhcpv4_options = snd dhcpv4, lsp_dhcpv6_options = snd dhcpv6\<rparr>
            columns_dict] @
         (if detached_sg_ids \<noteq> [] \<or> attached_sg_ids \<noteq> [] \<or> is_fixed_ips_updated
          then [UpdateAcls [network_id port] [port] [(port_id port, add_acls h port)]]
          else []) @
         update_address_set_cmds h original_port port)"

definition update_port_in_ovn ::
    "helpers \<Rightarrow> ovn_nb \<Rightarrow> port \<Rightarrow> port \<Rightarrow> ovn_port_info \<Rightarrow> (error + unit) \<times> ovn_nb" where
  "update_port_in_ovn h nb original_port port info =
     transaction nb (update_port_in_ovn_cmds h original_port port info)"

text \<open>The address-set commands among the commands of a transaction.\<close>

fun is_address_set_cmd :: "nb_cmd \<Rightarrow> bool" where
  "is_address_set_cmd (UpdateAddressSet n a r e) = True"
| "is_address_set_cmd c = False"

subsection \<open>Example values\<close>

definition nb0 :: ovn_nb where
  "nb0 = \<lparr>lswitch_ports = [], acls = [], dhcp_options_rows = [], address_sets = Map.empty\<rparr>"

definition vlan_segment :: segment where
  "vlan_segment = \<lparr>segment_id = ''s1'', network_type = ''vlan'',
     segmentation_id = Some 7, physical_network = Some ''physnet1''\<rparr>"

definition vxlan_segment :: segment where
  "vxlan_segment = \<lparr>segment_id = ''s2'', network_type = ''vxlan'',
     segmentation_id = Some 7, physical_network = None\<rparr>"

definition port0 :: port where
  "port0 = \<lparr>port_id = ''p1'', port_name = ''vm1'', network_id = ''n1'', vnic_type = None,
     status = ''DOWN'', device_owner = None, admin_state_up = True,
     mac_address = ''fa:16:3e:00:00:01'',
     fixed_ips = [\<lparr>subnet_id = ''sub1'', ip_address = ''10.0.0.5''\<rparr>],
     binding_profile = None, vif_details = Some []\<rparr>"

definition no_port :: "pyval \<Rightarrow> error + port" where
  "no_port v = Inl PortNotFound"

text \<open>A neutron database that holds the provisioning blocks only.\<close>

definition add_block0 :: "(string \<times> string \<times> string) list add_block" where
  "add_block0 db object_id object_type entity =
     (Inr (), (object_id, object_type, entity) # db)"

definition context0 :: "port \<Rightarrow> port_context" where
  "context0 p = \<lparr>current = p, host = Some ''host1'', original_host = None,
     segments_to_bind = [], set_binding_calls = []\<rparr>"

definition subnet0 :: subnet where
  "subnet0 = \<lparr>sn_id = ''sub1'', sn_cidr = ''192.168.1.0/24'',
     gateway_ip = Some ''192.168.1.1'', enable_dhcp = True, ip_version = 4,
     dns_nameservers = [],
     host_routes = [\<lparr>destination = ''192.168.50.0/24'', nexthop = ''192.168.1.1''\<rparr>],
     ipv6_address_mode = None\<rparr>"

definition network0 :: network where
  "network0 = \<lparr>mtu = 1442\<rparr>"

text \<open>A neutron database with a port table and the provisioning blocks.\<close>

record neutron_db =
  db_ports :: "port list"
  db_blocks :: "(string \<times> string \<times> string) list"

definition ndb_get_port :: "neutron_db \<Rightarrow> string \<Rightarrow> error + port" where
  "ndb_get_port db pid =
     (case find (\<lambda>p. port_id p = pid) (db_ports db) of
        None \<Rightarrow> Inl PortNotFound
      | Some p \<Rightarrow> Inr p)"

definition ndb_add_block :: "neutron_db add_block" where
  "ndb_add_block db object_id object_type entity =
     (if object_id \<in> port_id ` set (db_ports db)
      then (Inr (), db\<lparr>db_blocks := (object_id, object_type, entity) # db_blocks db\<rparr>)
      else (Inl DBReferenceError, db))"

definition ndb_update_port_status ::
    "neutron_db \<Rightarrow> string \<Rightarrow> string \<Rightarrow> (error + unit) \<times> neutron_db" where
  "ndb_update_port_status db pid st =
     (if pid \<in> port_id ` set (db_ports db)
      then (Inr (), db\<lparr>db_ports :=
              map (\<lambda>p. if port_id p = pid then p\<lparr>status := st\<rparr> else p) (db_ports db)\<rparr>)
      else (Inl PortNotFound, db))"

definition ndb_failing_get_port :: "neutron_db \<Rightarrow> string \<Rightarrow> error + port" where
  "ndb_failing_get_port db pid = Inl (OtherError ''connection lost'')"


definition parent_port :: "pyval \<Rightarrow> error + port" where
  "parent_port v = (if v = PStr ''p0'' then Inr port0 else Inl PortNotFound)"

definition profile_port :: "(string \<times> pyval) list \<Rightarrow> port" where
  "profile_port profile = port0\<lparr>binding_profile := Some profile\<rparr>"

text \<open>A northbound database with one subnet-level DHCP-options row, for \<^verbatim>\<open>sub1\<close>.\<close>

definition row0 :: dhcp_row where
  "row0 = \<lparr>cidr = ''10.0.0.0/24'',
     options = [''server_id'' \<mapsto> ''10.0.0.1'', ''mtu'' \<mapsto> ''1442''],
     external_ids = [''subnet_id'' \<mapsto> ''sub1''], uuid = ''u1''\<rparr>"

definition rows_of_sub1 :: "string list \<Rightarrow> dhcp_row list" where
  "rows_of_sub1 subnets = (if ''sub1'' \<in> set subnets then [row0] else [])"

definition version_by_colon :: "string \<Rightarrow> nat" where
  "version_by_colon a = (if CHR '':'' \<in> set a then 6 else 4)"

definition no_extra_opts :: "port \<Rightarrow> nat \<Rightarrow> bool \<times> (string \<times> string) list" where
  "no_extra_opts p v = (False, [])"

definition mtu_extra_opt :: "port \<Rightarrow> nat \<Rightarrow> bool \<times> (string \<times> string) list" where
  "mtu_extra_opt p v = (False, [(''mtu'', ''9000'')])"

definition dhcp_disabled :: "port \<Rightarrow> nat \<Rightarrow> bool \<times> (string \<times> string) list" where
  "dhcp_disabled p v = (True, [])"

text \<open>
  A host whose chassis has the kernel datapath and the physical network \<^verbatim>\<open>physnet1\<close>,
  and a port context that offers two geneve segments.
\<close>

definition conf0 :: bind_conf where
  "conf0 = \<lparr>sg_enabled = True, vhost_sock_dir = ''/var/run/openvswitch'',
     ovn_vhu_sockpath = (\<lambda>d p. d @ ''/'' @ p)\<rparr>"

definition chassis0 :: "string option \<Rightarrow> error + (string \<times> string \<times> string list)" where
  "chassis0 h =
     (if h = Some ''host1'' then Inr (''system'', '''', [''physnet1'']) else Inl RuntimeError)"

definition geneve_segment :: "string \<Rightarrow> segment" where
  "geneve_segment i = \<lparr>segment_id = i, network_type = ''geneve'',
     segmentation_id = Some 100, physical_network = None\<rparr>"

definition two_segment_context :: port_context where
  "two_segment_context = \<lparr>current = port0, host = Some ''host1'', original_host = None,
     segments_to_bind = [geneve_segment ''s3'', geneve_segment ''s4''],
     set_binding_calls = []\<rparr>"

text \<open>
  Helpers for a deployment with the security groups \<^verbatim>\<open>sgA\<close> and \<^verbatim>\<open>sgB\<close>: the groups of a
  port are read from a table by port name, and the addresses of a port are those of its
  fixed IPs.
\<close>

definition groups_by_name :: "port \<Rightarrow> string list" where
  "groups_by_name p =
     (if port_name p = ''vm1'' then [''sgA'']
      else if port_name p = ''vm2'' then [''sgB'']
      else [])"

definition h0 :: helpers where
  "h0 = \<lparr>get_lsp_security_groups = groups_by_name,
     acl_port_ips = (\<lambda>p.
       \<lparr>ip4 = filter (\<lambda>a. version_by_colon a = 4) (map ip_address (fixed_ips p)),
        ip6 = filter (\<lambda>a. version_by_colon a = 6) (map ip_address (fixed_ips p))\<rparr>),
     ovn_addrset_name = (\<lambda>sg_id ip_ver. ''as_'' @ ip_ver @ ''_'' @ sg_id),
     add_acls = (\<lambda>p. []),
     ovn_name = (\<lambda>n. ''neutron-'' @ n),
     get_router_port_options = (\<lambda>p. [])\<rparr>"

definition info0 :: ovn_port_info where
  "info0 = \<lparr>info_type = '''', info_options = [],
     info_addresses = [''fa:16:3e:00:00:01 10.0.0.5''],
     info_port_security = [''fa:16:3e:00:00:01 10.0.0.5''],
     info_parent_name = None, info_tag = None,
     info_dhcpv4_options = DhcpNone, info_dhcpv6_options = DhcpNone\<rparr>"

definition port0_moved :: port where
  "port0_moved = port0\<lparr>fixed_ips := [\<lparr>subnet_id = ''sub1'', ip_address = ''10.0.0.6''\<rparr>]\<rparr>"

text \<open>A northbound database that has the IPv4 address set of \<^verbatim>\<open>sgA\<close>, and a switch check that passes.\<close>

definition nb_with_sgA :: ovn_nb where
  "nb_with_sgA = nb0\<lparr>address_sets := [''as_ip4_sgA'' \<mapsto> {}]\<rparr>"

definition lswitch_present :: "ovn_nb \<Rightarrow> string \<Rightarrow> error + unit" where
  "lswitch_present nb n = Inr ()"

text \<open>Commands that remove no address from an address set.\<close>

fun removes_nothing :: "nb_cmd \<Rightarrow> bool" where
  "removes_nothing (UpdateAddressSet n a r e) = (r = AddrsNone)"
| "removes_nothing c = True"


section \<open>Properties\<close>

subsection \<open>Network validation\<close>

lemma validate_ok_iff:
  "validate_network_segments segs = Inr () \<longleftrightarrow>
     list_all (\<lambda>s. is_network_type_supported (network_type s)) segs"
  by (induction segs) auto

lemma validate_error:
  "\<not> list_all (\<lambda>s. is_network_type_supported (network_type s)) segs \<Longrightarrow>
   \<exists>s \<in> set segs. \<not> is_network_type_supported (network_type s) \<and>
     validate_network_segments segs =
       Inl (InvalidInput (NetworkTypeNotSupported (network_type s)))"
  by (induction segs) auto

lemma supported_iff:
  "is_network_type_supported t \<longleftrightarrow> t \<in> {''local'', ''flat'', ''geneve'', ''vlan''}"
  by (auto simp: is_network_type_supported_def TYPE_LOCAL_def TYPE_FLAT_def
      TYPE_GENEVE_def TYPE_VLAN_def)

text \<open>
  Claim C5. When every segment of the network has a network type among local, flat,
  geneve and vlan, \<open>create_network_precommit\<close> and \<open>update_network_precommit\<close> succeed;
  when some segment has another type, both raise \<^verbatim>\<open>InvalidInput\<close> for an unsupported
  type. Either way the northbound database is left as it was.
\<close>

theorem network_precommit_validates:
  "(list_all (\<lambda>s. network_type s \<in> {''local'', ''flat'', ''geneve'', ''vlan''})
        (network_segments context) \<longrightarrow>
      create_network_precommit nb context = (Inr (), nb) \<and>
      update_network_precommit nb context = (Inr (), nb)) \<and>
   (\<not> list_all (\<lambda>s. network_type s \<in> {''local'', ''flat'', ''geneve'', ''vlan''})
        (network_segments context) \<longrightarrow>
      (\<exists>t. t \<notin> {''local'', ''flat'', ''geneve'', ''vlan''} \<and>
           create_network_precommit nb context =
             (Inl (InvalidInput (NetworkTypeNotSupported t)), nb) \<and>
           update_network_precommit nb context =
             (Inl (InvalidInput (NetworkTypeNotSupported t)), nb)))"
proof (intro conjI impI)
  assume "list_all (\<lambda>s. network_type s \<in> {''local'', ''flat'', ''geneve'', ''vlan''})
        (network_segments context)"
  then have "validate_network_segments (network_segments context) = Inr ()"
    by (simp add: validate_ok_iff supported_iff)
  then show "create_network_precommit nb context = (Inr (), nb)"
    and "update_network_precommit nb context = (Inr (), nb)"
    by (simp_all add: create_network_precommit_def update_network_precommit_def)
next
  assume "\<not> list_all (\<lambda>s. network_type s \<in> {''local'', ''flat'', ''geneve'', ''vlan''})
        (network_segments context)"
  then have "\<not> list_all (\<lambda>s. is_network_type_supported (network_type s))
        (network_segments context)"
    by (simp add: supported_iff)
  from validate_error[OF this] obtain s :: segment where
    s: "\<not> is_network_type_supported (network_type s)"
       "validate_network_segments (network_segments context) =
          Inl (InvalidInput (NetworkTypeNotSupported (network_type s)))"
    by blast
  show "\<exists>t. t \<notin> {''local'', ''flat'', ''geneve'', ''vlan''} \<and>
           create_network_precommit nb context =
             (Inl (InvalidInput (NetworkTypeNotSupported t)), nb) \<and>
           update_network_precommit nb context =
             (Inl (InvalidInput (NetworkTypeNotSupported t)), nb)"
    using s by (intro exI[of _ "network_type s"])
      (simp add: supported_iff create_network_precommit_def update_network_precommit_def)
qed

theorem network_precommit_validates_witness:
  "create_network_precommit nb0 \<lparr>network_segments = [vlan_segment]\<rparr> = (Inr (), nb0) \<and>
   update_network_precommit nb0 \<lparr>network_segments = [vlan_segment]\<rparr> = (Inr (), nb0) \<and>
   create_network_precommit nb0 \<lparr>network_segments = [vlan_segment, vxlan_segment]\<rparr> =
     (Inl (InvalidInput (NetworkTypeNotSupported ''vxlan'')), nb0) \<and>
   update_network_precommit nb0 \<lparr>network_segments = [vlan_segment, vxlan_segment]\<rparr> =
     (Inl (InvalidInput (NetworkTypeNotSupported ''vxlan'')), nb0)"
  using network_precommit_validates[of "\<lparr>network_segments = [vlan_segment]\<rparr>" nb0]
    network_precommit_validates[of "\<lparr>network_segments = [vlan_segment, vxlan_segment]\<rparr>" nb0]
  by (simp add: supported_iff create_network_precommit_def update_network_precommit_def
      vlan_segment_def vxlan_segment_def)

subsection \<open>The provisioning-block gate\<close>

text \<open>
  Claim C3. \<open>is_port_provisioning_required\<close> holds exactly when the port's vnic type is
  among the supported ones, its status is not ACTIVE, the host is present and not
  empty, the host differs from the original host, and the chassis of the host exists in
  the southbound database. When it does not hold, \<open>create_port_precommit\<close> and
  \<open>update_port_precommit\<close> leave neutron's database as it was: no provisioning block
  is inserted.
\<close>

theorem provisioning_required_iff:
  "(is_port_provisioning_required chassis_exists port h oh \<longleftrightarrow>
      (case vnic_type port of None \<Rightarrow> VNIC_NORMAL | Some v \<Rightarrow> v)
        \<in> set supported_vnic_types \<and>
      status port \<noteq> PORT_STATUS_ACTIVE \<and>
      (\<exists>hn. h = Some hn \<and> hn \<noteq> [] \<and> chassis_exists hn) \<and>
      h \<noteq> oh) \<and>
   (\<not> is_port_provisioning_required chassis_exists (current context) (host context) None
      \<longrightarrow> snd (create_port_precommit get_port chassis_exists add_block db context) = db) \<and>
   (\<not> is_port_provisioning_required chassis_exists (current context) (host context)
        (original_host context)
      \<longrightarrow> snd (update_port_precommit get_port chassis_exists add_block db context) = db)"
proof (intro conjI impI)
  show "is_port_provisioning_required chassis_exists port h oh \<longleftrightarrow>
      (case vnic_type port of None \<Rightarrow> VNIC_NORMAL | Some v \<Rightarrow> v)
        \<in> set supported_vnic_types \<and>
      status port \<noteq> PORT_STATUS_ACTIVE \<and>
      (\<exists>hn. h = Some hn \<and> hn \<noteq> [] \<and> chassis_exists hn) \<and>
      h \<noteq> oh"
    by (cases h) (auto simp: is_port_provisioning_required_def Let_def)
next
  assume "\<not> is_port_provisioning_required chassis_exists (current context)
            (host context) None"
  then show "snd (create_port_precommit get_port chassis_exists add_block db context) = db"
    by (simp add: create_port_precommit_def Let_def split: sum.splits)
next
  assume "\<not> is_port_provisioning_required chassis_exists (current context)
            (host context) (original_host context)"
  then show "snd (update_port_precommit get_port chassis_exists add_block db context) = db"
    by (simp add: update_port_precommit_def Let_def split: sum.splits)
qed

theorem provisioning_required_iff_witness:
  "is_port_provisioning_required (\<lambda>h. h = ''host1'') port0 (Some ''host1'') None \<and>
   \<not> is_port_provisioning_required (\<lambda>h. h = ''host1'') (port0\<lparr>status := ''ACTIVE''\<rparr>)
        (Some ''host1'') None \<and>
   create_port_precommit no_port (\<lambda>h. h = ''host1'') add_block0 [] (context0 port0) =
     (Inr (), [(''p1'', ''port'', ''L2'')]) \<and>
   snd (create_port_precommit no_port (\<lambda>h. h = ''host1'') add_block0 []
          (context0 (port0\<lparr>status := ''ACTIVE''\<rparr>))) = [] \<and>
   snd (update_port_precommit no_port (\<lambda>h. h = ''host1'') add_block0 []
          ((context0 port0)\<lparr>original_host := Some ''host1''\<rparr>)) = []"
  using provisioning_required_iff[of "\<lambda>h. h = ''host1''" port0 "Some ''host1''" None
          "context0 (port0\<lparr>status := ''ACTIVE''\<rparr>)" no_port add_block0 "[]"]
    provisioning_required_iff[of "\<lambda>h. h = ''host1''" "port0\<lparr>status := ''ACTIVE''\<rparr>"
          "Some ''host1''" None "(context0 port0)\<lparr>original_host := Some ''host1''\<rparr>"
          no_port add_block0 "[]"]
  by (simp add: port0_def context0_def supported_vnic_types_def VNIC_NORMAL_def
      PORT_STATUS_ACTIVE_def create_port_precommit_def update_port_precommit_def
      is_port_provisioning_required_def Let_def
      validate_and_get_data_from_binding_profile_def validate_profile_with_def
      insert_port_provisioning_block_def add_block0_def RESOURCE_PORT_def L2_AGENT_ENTITY_def)

subsection \<open>DHCP options of a subnet\<close>

lemma add_routes_eq:
  "add_routes acc rs =
     acc @ concat (map (\<lambda>r. destination r @ '','' @ nexthop r @ '', '') rs)"
  by (induction rs arbitrary: acc) auto

lemma add_routes_brace: "add_routes ''{'' rs = ''{'' \<longleftrightarrow> rs = []"
  by (cases rs) (auto simp: add_routes_eq)

lemma str_int_examples: "str_int 1442 = ''1442''" "str_int (- 7) = ''-7''" "str_int 0 = ''0''"
  by code_simp+

text \<open>
  Claim C7. For a subnet with a gateway and at least one host route,
  \<open>get_ovn_dhcpv4_opts\<close> sets \<^verbatim>\<open>classless_static_route\<close> to the host routes, each
  rendered as \<^verbatim>\<open>destination,nexthop\<close> and followed by a comma and a space, then the
  default route \<^verbatim>\<open>0.0.0.0/0,gateway\<close>, all in braces; so does the row
  \<open>get_ovn_dhcp_options\<close> builds for a DHCP-enabled IPv4 subnet. With no host routes
  the option is absent.
\<close>

theorem classless_static_route_option:
  "(gateway_ip subnet = Some gw \<and> gw \<noteq> [] \<and> host_routes subnet \<noteq> [] \<longrightarrow>
      get_ovn_dhcpv4_opts lease_time random_mac subnet network server_mac
          ''classless_static_route'' =
        Some (''{'' @ concat (map (\<lambda>r. destination r @ '','' @ nexthop r @ '', '')
                              (host_routes subnet))
                @ ''0.0.0.0/0,'' @ gw @ ''}'') \<and>
      (enable_dhcp subnet \<and> ip_version subnet = IP_VERSION_4 \<longrightarrow>
         options (get_ovn_dhcp_options lease_time random_mac subnet network server_mac)
             ''classless_static_route'' =
           Some (''{'' @ concat (map (\<lambda>r. destination r @ '','' @ nexthop r @ '', '')
                                 (host_routes subnet))
                   @ ''0.0.0.0/0,'' @ gw @ ''}''))) \<and>
   (host_routes subnet = [] \<longrightarrow>
      get_ovn_dhcpv4_opts lease_time random_mac subnet network server_mac
          ''classless_static_route'' = None \<and>
      (ip_version subnet = IP_VERSION_4 \<longrightarrow>
         options (get_ovn_dhcp_options lease_time random_mac subnet network server_mac)
             ''classless_static_route'' = None))"
proof -
  have with_routes:
    "get_ovn_dhcpv4_opts lease_time random_mac subnet network server_mac
          ''classless_static_route'' =
        Some (''{'' @ concat (map (\<lambda>r. destination r @ '','' @ nexthop r @ '', '')
                              (host_routes subnet))
                @ ''0.0.0.0/0,'' @ gw @ ''}'')"
    if "gateway_ip subnet = Some gw" "gw \<noteq> []" "host_routes subnet \<noteq> []"
    using that
    by (simp add: get_ovn_dhcpv4_opts_def Let_def add_routes_brace)
       (simp add: add_routes_eq)
  have without_routes:
    "get_ovn_dhcpv4_opts lease_time random_mac subnet network server_mac
          ''classless_static_route'' = None"
    if "host_routes subnet = []"
    using that
    by (simp add: get_ovn_dhcpv4_opts_def Let_def split: option.splits)
  show ?thesis
    using with_routes without_routes by (simp add: get_ovn_dhcp_options_def)
qed

theorem classless_static_route_option_witness:
  "get_ovn_dhcpv4_opts 43200 ''fa:16:3e:aa:bb:cc'' subnet0 network0 None
      ''classless_static_route'' =
     Some ''{192.168.50.0/24,192.168.1.1, 0.0.0.0/0,192.168.1.1}'' \<and>
   options (get_ovn_dhcp_options 43200 ''fa:16:3e:aa:bb:cc'' subnet0 network0 None)
      ''classless_static_route'' =
     Some ''{192.168.50.0/24,192.168.1.1, 0.0.0.0/0,192.168.1.1}'' \<and>
   get_ovn_dhcpv4_opts 43200 ''fa:16:3e:aa:bb:cc'' (subnet0\<lparr>host_routes := []\<rparr>) network0
      None ''classless_static_route'' = None \<and>
   options (get_ovn_dhcp_options 43200 ''fa:16:3e:aa:bb:cc'' (subnet0\<lparr>host_routes := []\<rparr>)
      network0 None) ''classless_static_route'' = None"
  using classless_static_route_option[of subnet0 "''192.168.1.1''" 43200
          "''fa:16:3e:aa:bb:cc''" network0 None]
    classless_static_route_option[of "subnet0\<lparr>host_routes := []\<rparr>" "''192.168.1.1''" 43200
          "''fa:16:3e:aa:bb:cc''" network0 None]
  by (simp add: subnet0_def IP_VERSION_4_def)

text \<open>
  Claim C10. For a subnet whose gateway is unset (\<^verbatim>\<open>None\<close> or the empty string),
  \<open>get_ovn_dhcpv4_opts\<close> returns the empty dictionary; the row \<open>get_ovn_dhcp_options\<close>
  builds for such an IPv4 subnet has no option at all, whether DHCP is enabled or not,
  and so none of server_id, server_mac, lease_time, mtu, router, dns_server and
  classless_static_route.
\<close>

theorem no_gateway_no_options:
  "falsy_str (gateway_ip subnet) \<longrightarrow>
     get_ovn_dhcpv4_opts lease_time random_mac subnet network server_mac = Map.empty \<and>
     (ip_version subnet = IP_VERSION_4 \<longrightarrow>
        options (get_ovn_dhcp_options lease_time random_mac subnet network server_mac)
          = Map.empty \<and>
        list_all (\<lambda>k. options (get_ovn_dhcp_options lease_time random_mac subnet network
                                  server_mac) k = None)
          [''server_id'', ''server_mac'', ''lease_time'', ''mtu'', ''router'',
           ''dns_server'', ''classless_static_route''])"
  by (auto simp: falsy_str_def get_ovn_dhcpv4_opts_def get_ovn_dhcp_options_def)

theorem no_gateway_no_options_witness:
  "enable_dhcp (subnet0\<lparr>gateway_ip := None\<rparr>) \<and>
   get_ovn_dhcpv4_opts 43200 ''fa:16:3e:aa:bb:cc'' (subnet0\<lparr>gateway_ip := None\<rparr>) network0
      None = Map.empty \<and>
   options (get_ovn_dhcp_options 43200 ''fa:16:3e:aa:bb:cc'' (subnet0\<lparr>gateway_ip := None\<rparr>)
      network0 None) = Map.empty \<and>
   options (get_ovn_dhcp_options 43200 ''fa:16:3e:aa:bb:cc''
      (subnet0\<lparr>gateway_ip := Some ''''\<rparr>) network0 None) = Map.empty"
  using no_gateway_no_options[of "subnet0\<lparr>gateway_ip := None\<rparr>" 43200
          "''fa:16:3e:aa:bb:cc''" network0 None]
    no_gateway_no_options[of "subnet0\<lparr>gateway_ip := Some ''''\<rparr>" 43200
          "''fa:16:3e:aa:bb:cc''" network0 None]
  by (simp add: subnet0_def IP_VERSION_4_def falsy_str_def)

subsection \<open>Status reports of the OVN monitor\<close>

text \<open>
  Claim C8. When the port lookup, the insertion of the provisioning block or the status
  update raises \<^verbatim>\<open>PortNotFound\<close> or \<^verbatim>\<open>DBReferenceError\<close>, \<open>set_port_status_down\<close>
  returns normally and logs that the port was not found. When none of them raises, it
  returns normally with the database the block insertion and then the status update
  (to DOWN) leave. Any other exception of the three calls propagates.
\<close>

theorem status_down_swallows_not_found:
  "(get_port db pid = Inl e \<longrightarrow>
      set_port_status_down get_port add_block update_port_status db pid =
        (if e = DBReferenceError \<or> e = PortNotFound
         then (Inr (), db,
               [LogInfo (''OVN reports status down for port: '' @ pid),
                LogDebug (''Port not found during OVN status down report: '' @ pid)])
         else (Inl e, db, [LogInfo (''OVN reports status down for port: '' @ pid)]))) \<and>
   (get_port db pid = Inr port \<and>
    add_block db (port_id port) RESOURCE_PORT L2_AGENT_ENTITY = (Inl e, db1) \<longrightarrow>
      set_port_status_down get_port add_block update_port_status db pid =
        (if e = DBReferenceError \<or> e = PortNotFound
         then (Inr (), db1,
               [LogInfo (''OVN reports status down for port: '' @ pid),
                LogDebug (''Port not found during OVN status down report: '' @ pid)])
         else (Inl e, db1, [LogInfo (''OVN reports status down for port: '' @ pid)]))) \<and>
   (get_port db pid = Inr port \<and>
    add_block db (port_id port) RESOURCE_PORT L2_AGENT_ENTITY = (Inr (), db1) \<and>
    update_port_status db1 (port_id port) PORT_STATUS_DOWN = (Inl e, db2) \<longrightarrow>
      set_port_status_down get_port add_block update_port_status db pid =
        (if e = DBReferenceError \<or> e = PortNotFound
         then (Inr (), db2,
               [LogInfo (''OVN reports status down for port: '' @ pid),
                LogDebug (''Port not found during OVN status down report: '' @ pid)])
         else (Inl e, db2, [LogInfo (''OVN reports status down for port: '' @ pid)]))) \<and>
   (get_port db pid = Inr port \<and>
    add_block db (port_id port) RESOURCE_PORT L2_AGENT_ENTITY = (Inr (), db1) \<and>
    update_port_status db1 (port_id port) PORT_STATUS_DOWN = (Inr (), db2) \<longrightarrow>
      set_port_status_down get_port add_block update_port_status db pid =
        (Inr (), db2, [LogInfo (''OVN reports status down for port: '' @ pid)]))"
  by (simp add: set_port_status_down_def status_down_body_def
      insert_port_provisioning_block_def)

theorem status_down_swallows_not_found_witness:
  "set_port_status_down ndb_get_port ndb_add_block ndb_update_port_status
      \<lparr>db_ports = [], db_blocks = []\<rparr> ''p1'' =
     (Inr (), \<lparr>db_ports = [], db_blocks = []\<rparr>,
      [LogInfo ''OVN reports status down for port: p1'',
       LogDebug ''Port not found during OVN status down report: p1'']) \<and>
   set_port_status_down ndb_get_port ndb_add_block ndb_update_port_status
      \<lparr>db_ports = [port0\<lparr>status := ''ACTIVE''\<rparr>], db_blocks = []\<rparr> ''p1'' =
     (Inr (), \<lparr>db_ports = [port0], db_blocks = [(''p1'', ''port'', ''L2'')]\<rparr>,
      [LogInfo ''OVN reports status down for port: p1'']) \<and>
   set_port_status_down ndb_failing_get_port ndb_add_block ndb_update_port_status
      \<lparr>db_ports = [port0], db_blocks = []\<rparr> ''p1'' =
     (Inl (OtherError ''connection lost''), \<lparr>db_ports = [port0], db_blocks = []\<rparr>,
      [LogInfo ''OVN reports status down for port: p1''])"
  using status_down_swallows_not_found[of ndb_get_port "\<lparr>db_ports = [], db_blocks = []\<rparr>"
          "''p1''" PortNotFound ndb_add_block ndb_update_port_status]
    status_down_swallows_not_found[of ndb_get_port
          "\<lparr>db_ports = [port0\<lparr>status := ''ACTIVE''\<rparr>], db_blocks = []\<rparr>" "''p1''" PortNotFound
          ndb_add_block ndb_update_port_status "port0\<lparr>status := ''ACTIVE''\<rparr>"
          "\<lparr>db_ports = [port0\<lparr>status := ''ACTIVE''\<rparr>],
            db_blocks = [(''p1'', ''port'', ''L2'')]\<rparr>"
          "\<lparr>db_ports = [port0], db_blocks = [(''p1'', ''port'', ''L2'')]\<rparr>"]
    status_down_swallows_not_found[of ndb_failing_get_port
          "\<lparr>db_ports = [port0], db_blocks = []\<rparr>" "''p1''" "OtherError ''connection lost''"
          ndb_add_block ndb_update_port_status]
  by (simp add: ndb_get_port_def ndb_add_block_def ndb_update_port_status_def
      ndb_failing_get_port_def port0_def RESOURCE_PORT_def L2_AGENT_ENTITY_def
      PORT_STATUS_DOWN_def)

subsection \<open>Binding-profile validation\<close>

lemma dict_len_card: "dict_len d = card (dom (map_of d))"
  by (simp add: dict_len_def length_remdups_card_conv dom_map_of_conv_image_fst)

lemma dict_len_three:
  assumes "map_of d k1 \<noteq> None" "map_of d k2 \<noteq> None" "map_of d k3 \<noteq> None"
    and "k1 \<noteq> k2" "k1 \<noteq> k3" "k2 \<noteq> k3"
  shows "dict_len d \<noteq> 2"
proof -
  have "{k1, k2, k3} \<subseteq> dom (map_of d)"
    using assms by auto
  then have "card {k1, k2, k3} \<le> card (dom (map_of d))"
    by (intro card_mono) (simp_all add: finite_dom_map_of)
  then show ?thesis
    using assms by (simp add: dict_len_card)
qed

text \<open>The loop over the two parameter sets, by the keys the profile has.\<close>

lemma select_param_set_cases:
  "select_param_set profile OVN_PORT_BINDING_PROFILE_PARAMS ps0 [] =
     (case map_of profile ''parent_name'' of
        Some v1 \<Rightarrow>
          (case map_of profile ''tag'' of
             Some v2 \<Rightarrow>
               if dict_len profile \<noteq> 2 then Inl (InvalidInput TooManyParameters)
               else Inr ([(''parent_name'', Some string_types), (''tag'', Some integer_types)],
                         [(''parent_name'', v1), (''tag'', v2)])
           | None \<Rightarrow> Inl (InvalidInput (AllRequired [''parent_name'', ''tag''])))
      | None \<Rightarrow>
          (case map_of profile ''tag'' of
             Some v2 \<Rightarrow> Inl (InvalidInput (AllRequired [''parent_name'', ''tag'']))
           | None \<Rightarrow>
               (case map_of profile ''vtep-physical-switch'' of
                  Some w1 \<Rightarrow>
                    (case map_of profile ''vtep-logical-switch'' of
                       Some w2 \<Rightarrow>
                         if dict_len profile \<noteq> 2 then Inl (InvalidInput TooManyParameters)
                         else Inr ([(''vtep-physical-switch'', Some string_types),
                                    (''vtep-logical-switch'', Some string_types)],
                                   [(''vtep-physical-switch'', w1),
                                    (''vtep-logical-switch'', w2)])
                     | None \<Rightarrow>
                         Inl (InvalidInput (AllRequired
                           [''vtep-physical-switch'', ''vtep-logical-switch''])))
                | None \<Rightarrow>
                    (case map_of profile ''vtep-logical-switch'' of
                       Some w2 \<Rightarrow>
                         Inl (InvalidInput (AllRequired
                           [''vtep-physical-switch'', ''vtep-logical-switch'']))
                     | None \<Rightarrow> Inr ([(''vtep-physical-switch'', Some string_types),
                                    (''vtep-logical-switch'', Some string_types)], [])))))"
  by (simp add: OVN_PORT_BINDING_PROFILE_PARAMS_def Let_def dict_len_def
      split: option.splits)

lemmas validate_defs =
  validate_and_get_data_from_binding_profile_def validate_profile_with_def
  select_param_set_cases check_parent_def check_tag_def

lemma tag_out_of_range_rejected:
  assumes "binding_profile port = Some profile"
    and "map_of profile ''tag'' = Some (PInt t)" and "t < 0 \<or> 4095 < t"
  shows "\<exists>e. validate_and_get_data_from_binding_profile get_port port = Inl e \<and>
           ((\<exists>m. e = InvalidInput m) \<or>
            (\<exists>v. map_of profile ''parent_name'' = Some v \<and> get_port v = Inl e))"
proof (cases "map_of profile ''parent_name''")
  case None
  then show ?thesis using assms by (simp add: validate_defs)
next
  case (Some v)
  show ?thesis
  proof (cases "dict_len profile = 2")
    case False
    then show ?thesis using assms Some by (simp add: validate_defs)
  next
    case True
    show ?thesis
    proof (cases "isinstance v string_types")
      case False
      then show ?thesis using assms Some True by (simp add: validate_defs)
    next
      case str: True
      show ?thesis
      proof (cases "get_port v")
        case (Inl e)
        then show ?thesis using assms Some True str by (simp add: validate_defs)
      next
        case (Inr x)
        then show ?thesis using assms Some True str by (auto simp add: validate_defs)
      qed
    qed
  qed
qed

lemma tag_checked_after_parent:
  assumes "binding_profile port = Some profile" and "dict_len profile = 2"
    and "map_of profile ''parent_name'' = Some (PStr p)"
    and "map_of profile ''tag'' = Some (PInt t)"
    and "get_port (PStr p) = Inr x"
  shows "validate_and_get_data_from_binding_profile get_port port =
           (if t < 0 \<or> 4095 < t then Inl (InvalidInput (TagOutOfRange t))
            else Inr [(''parent_name'', PStr p), (''tag'', PInt t)])"
  using assms by (simp add: validate_defs)

lemma mixed_sets_rejected:
  assumes "binding_profile port = Some profile"
    and "k1 \<in> {''parent_name'', ''tag''}"
    and "k2 \<in> {''vtep-physical-switch'', ''vtep-logical-switch''}"
    and "map_of profile k1 \<noteq> None" and "map_of profile k2 \<noteq> None"
  shows "validate_and_get_data_from_binding_profile get_port port =
           (if map_of profile ''parent_name'' \<noteq> None \<and> map_of profile ''tag'' \<noteq> None
            then Inl (InvalidInput TooManyParameters)
            else Inl (InvalidInput (AllRequired [''parent_name'', ''tag''])))"
proof (cases "map_of profile ''parent_name'' \<noteq> None \<and> map_of profile ''tag'' \<noteq> None")
  case True
  have "dict_len profile \<noteq> 2"
    using dict_len_three[of profile "''parent_name''" "''tag''" k2] True assms(3,5)
    by auto
  then show ?thesis using True assms(1) by (auto simp add: validate_defs)
next
  case False
  then show ?thesis using assms by (auto simp add: validate_defs)
qed

lemma partial_set_rejected:
  assumes "binding_profile port = Some profile"
  shows "((map_of profile ''parent_name'' = None) \<noteq> (map_of profile ''tag'' = None) \<longrightarrow>
            validate_and_get_data_from_binding_profile get_port port =
              Inl (InvalidInput (AllRequired [''parent_name'', ''tag'']))) \<and>
         ((map_of profile ''vtep-physical-switch'' = None)
              \<noteq> (map_of profile ''vtep-logical-switch'' = None) \<longrightarrow>
            validate_and_get_data_from_binding_profile get_port port =
              (if map_of profile ''parent_name'' = None \<and> map_of profile ''tag'' = None
               then Inl (InvalidInput (AllRequired
                      [''vtep-physical-switch'', ''vtep-logical-switch'']))
               else if map_of profile ''parent_name'' \<noteq> None \<and> map_of profile ''tag'' \<noteq> None
               then Inl (InvalidInput TooManyParameters)
               else Inl (InvalidInput (AllRequired [''parent_name'', ''tag'']))))"
proof (intro conjI impI)
  assume "(map_of profile ''parent_name'' = None) \<noteq> (map_of profile ''tag'' = None)"
  then show "validate_and_get_data_from_binding_profile get_port port =
              Inl (InvalidInput (AllRequired [''parent_name'', ''tag'']))"
    using assms by (auto simp add: validate_defs)
next
  assume a: "(map_of profile ''vtep-physical-switch'' = None)
              \<noteq> (map_of profile ''vtep-logical-switch'' = None)"
  then obtain k2 where k2: "k2 \<in> {''vtep-physical-switch'', ''vtep-logical-switch''}"
      "map_of profile k2 \<noteq> None"
    by auto
  show "validate_and_get_data_from_binding_profile get_port port =
              (if map_of profile ''parent_name'' = None \<and> map_of profile ''tag'' = None
               then Inl (InvalidInput (AllRequired
                      [''vtep-physical-switch'', ''vtep-logical-switch'']))
               else if map_of profile ''parent_name'' \<noteq> None \<and> map_of profile ''tag'' \<noteq> None
               then Inl (InvalidInput TooManyParameters)
               else Inl (InvalidInput (AllRequired [''parent_name'', ''tag''])))"
  proof (cases "map_of profile ''parent_name'' = None \<and> map_of profile ''tag'' = None")
    case True
    then show ?thesis using assms a by (auto simp add: validate_defs)
  next
    case False
    then obtain k1 where "k1 \<in> {''parent_name'', ''tag''}" "map_of profile k1 \<noteq> None"
      by auto
    from mixed_sets_rejected[OF assms this(1) k2(1) this(2) k2(2)] False
    show ?thesis by simp
  qed
qed

text \<open>
  Claim C6, as stated, fails for the profile \<^verbatim>\<open>{parent_name, vtep-physical-switch}\<close>: it
  is rejected, but because \<^verbatim>\<open>parent_name\<close> and \<^verbatim>\<open>tag\<close> are all required, and not as too
  many parameters.
\<close>

theorem mixed_profile_not_too_many:
  "validate_and_get_data_from_binding_profile parent_port
      (profile_port [(''parent_name'', PStr ''p0''), (''vtep-physical-switch'', PStr ''sw1'')])
     = Inl (InvalidInput (AllRequired [''parent_name'', ''tag'']))
   \<and> validate_and_get_data_from_binding_profile parent_port
      (profile_port [(''parent_name'', PStr ''p0''), (''vtep-physical-switch'', PStr ''sw1'')])
     \<noteq> Inl (InvalidInput TooManyParameters)"
  by (simp add: validate_defs profile_port_def)

text \<open>
  Claim C6, amended. For a port with a binding profile:
  a profile whose tag is an integer outside 0..4095 is rejected, with a validation
  error unless the lookup of its \<^verbatim>\<open>parent_name\<close> raises first;
  a profile of exactly \<^verbatim>\<open>parent_name\<close> (a string that resolves to a port) and an integer
  \<^verbatim>\<open>tag\<close> is rejected for the tag when the tag is outside 0..4095 and accepted otherwise,
  so 4095 is accepted and 4096 is not;
  a profile with a key of each parameter set is rejected, as too many parameters when it
  has both \<^verbatim>\<open>parent_name\<close> and \<^verbatim>\<open>tag\<close>, and because \<^verbatim>\<open>parent_name\<close> and \<^verbatim>\<open>tag\<close> are all required
  otherwise;
  a profile with only one key of a parameter set is rejected.
\<close>

theorem binding_profile_validation:
  "binding_profile port = Some profile \<longrightarrow>
     (map_of profile ''tag'' = Some (PInt t) \<and> (t < 0 \<or> 4095 < t) \<longrightarrow>
        (\<exists>e. validate_and_get_data_from_binding_profile get_port port = Inl e \<and>
           ((\<exists>m. e = InvalidInput m) \<or>
            (\<exists>v. map_of profile ''parent_name'' = Some v \<and> get_port v = Inl e)))) \<and>
     (dict_len profile = 2 \<and> map_of profile ''parent_name'' = Some (PStr p) \<and>
      map_of profile ''tag'' = Some (PInt t) \<and> get_port (PStr p) = Inr x \<longrightarrow>
        validate_and_get_data_from_binding_profile get_port port =
          (if t < 0 \<or> 4095 < t then Inl (InvalidInput (TagOutOfRange t))
           else Inr [(''parent_name'', PStr p), (''tag'', PInt t)])) \<and>
     (k1 \<in> {''parent_name'', ''tag''} \<and>
      k2 \<in> {''vtep-physical-switch'', ''vtep-logical-switch''} \<and>
      map_of profile k1 \<noteq> None \<and> map_of profile k2 \<noteq> None \<longrightarrow>
        validate_and_get_data_from_binding_profile get_port port =
          (if map_of profile ''parent_name'' \<noteq> None \<and> map_of profile ''tag'' \<noteq> None
           then Inl (InvalidInput TooManyParameters)
           else Inl (InvalidInput (AllRequired [''parent_name'', ''tag''])))) \<and>
     ((map_of profile ''parent_name'' = None) \<noteq> (map_of profile ''tag'' = None) \<longrightarrow>
        validate_and_get_data_from_binding_profile get_port port =
          Inl (InvalidInput (AllRequired [''parent_name'', ''tag'']))) \<and>
     ((map_of profile ''vtep-physical-switch'' = None)
          \<noteq> (map_of profile ''vtep-logical-switch'' = None) \<longrightarrow>
        validate_and_get_data_from_binding_profile get_port port =
          (if map_of profile ''parent_name'' = None \<and> map_of profile ''tag'' = None
           then Inl (InvalidInput (AllRequired
                  [''vtep-physical-switch'', ''vtep-logical-switch'']))
           else if map_of profile ''parent_name'' \<noteq> None \<and> map_of profile ''tag'' \<noteq> None
           then Inl (InvalidInput TooManyParameters)
           else Inl (InvalidInput (AllRequired [''parent_name'', ''tag'']))))"
proof (intro impI conjI)
  assume bp: "binding_profile port = Some profile"
  {
    assume "map_of profile ''tag'' = Some (PInt t) \<and> (t < 0 \<or> 4095 < t)"
    then show "\<exists>e. validate_and_get_data_from_binding_profile get_port port = Inl e \<and>
           ((\<exists>m. e = InvalidInput m) \<or>
            (\<exists>v. map_of profile ''parent_name'' = Some v \<and> get_port v = Inl e))"
      using tag_out_of_range_rejected[OF bp] by blast
  next
    assume "dict_len profile = 2 \<and> map_of profile ''parent_name'' = Some (PStr p) \<and>
      map_of profile ''tag'' = Some (PInt t) \<and> get_port (PStr p) = Inr x"
    then show "validate_and_get_data_from_binding_profile get_port port =
          (if t < 0 \<or> 4095 < t then Inl (InvalidInput (TagOutOfRange t))
           else Inr [(''parent_name'', PStr p), (''tag'', PInt t)])"
      using tag_checked_after_parent[OF bp] by blast
  next
    assume "k1 \<in> {''parent_name'', ''tag''} \<and>
      k2 \<in> {''vtep-physical-switch'', ''vtep-logical-switch''} \<and>
      map_of profile k1 \<noteq> None \<and> map_of profile k2 \<noteq> None"
    then show "validate_and_get_data_from_binding_profile get_port port =
          (if map_of profile ''parent_name'' \<noteq> None \<and> map_of profile ''tag'' \<noteq> None
           then Inl (InvalidInput TooManyParameters)
           else Inl (InvalidInput (AllRequired [''parent_name'', ''tag''])))"
      using mixed_sets_rejected[OF bp, of k1 k2] by blast
  next
    assume "(map_of profile ''parent_name'' = None) \<noteq> (map_of profile ''tag'' = None)"
    then show "validate_and_get_data_from_binding_profile get_port port =
          Inl (InvalidInput (AllRequired [''parent_name'', ''tag'']))"
      using partial_set_rejected[OF bp] by blast
  next
    assume "(map_of profile ''vtep-physical-switch'' = None)
          \<noteq> (map_of profile ''vtep-logical-switch'' = None)"
    then show "validate_and_get_data_from_binding_profile get_port port =
          (if map_of profile ''parent_name'' = None \<and> map_of profile ''tag'' = None
           then Inl (InvalidInput (AllRequired
                  [''vtep-physical-switch'', ''vtep-logical-switch'']))
           else if map_of profile ''parent_name'' \<noteq> None \<and> map_of profile ''tag'' \<noteq> None
           then Inl (InvalidInput TooManyParameters)
           else Inl (InvalidInput (AllRequired [''parent_name'', ''tag''])))"
      using partial_set_rejected[OF bp] by blast
  }
qed

theorem binding_profile_validation_witness:
  "validate_and_get_data_from_binding_profile parent_port
      (profile_port [(''parent_name'', PStr ''p0''), (''tag'', PInt 4096)])
     = Inl (InvalidInput (TagOutOfRange 4096)) \<and>
   validate_and_get_data_from_binding_profile parent_port
      (profile_port [(''parent_name'', PStr ''p0''), (''tag'', PInt 4095)])
     = Inr [(''parent_name'', PStr ''p0''), (''tag'', PInt 4095)] \<and>
   validate_and_get_data_from_binding_profile parent_port
      (profile_port [(''parent_name'', PStr ''p0''), (''tag'', PInt 7),
                     (''vtep-physical-switch'', PStr ''sw1'')])
     = Inl (InvalidInput TooManyParameters) \<and>
   validate_and_get_data_from_binding_profile parent_port
      (profile_port [(''tag'', PInt 7)])
     = Inl (InvalidInput (AllRequired [''parent_name'', ''tag''])) \<and>
   validate_and_get_data_from_binding_profile parent_port
      (profile_port [(''vtep-logical-switch'', PStr ''ls1'')])
     = Inl (InvalidInput (AllRequired [''vtep-physical-switch'', ''vtep-logical-switch'']))"
  using
    binding_profile_validation[of
      "profile_port [(''parent_name'', PStr ''p0''), (''tag'', PInt 4096)]"
      "[(''parent_name'', PStr ''p0''), (''tag'', PInt 4096)]" 4096 parent_port "''p0''" port0]
    binding_profile_validation[of
      "profile_port [(''parent_name'', PStr ''p0''), (''tag'', PInt 4095)]"
      "[(''parent_name'', PStr ''p0''), (''tag'', PInt 4095)]" 4095 parent_port "''p0''" port0]
    binding_profile_validation[of
      "profile_port [(''parent_name'', PStr ''p0''), (''tag'', PInt 7),
                     (''vtep-physical-switch'', PStr ''sw1'')]"
      "[(''parent_name'', PStr ''p0''), (''tag'', PInt 7),
        (''vtep-physical-switch'', PStr ''sw1'')]" 7 parent_port "''p0''" port0
      "''tag''" "''vtep-physical-switch''"]
    binding_profile_validation[of
      "profile_port [(''tag'', PInt 7)]" "[(''tag'', PInt 7)]" 7 parent_port]
    binding_profile_validation[of
      "profile_port [(''vtep-logical-switch'', PStr ''ls1'')]"
      "[(''vtep-logical-switch'', PStr ''ls1'')]" 7 parent_port]
  by (simp add: profile_port_def parent_port_def dict_len_def)

subsection \<open>DHCP options of a port\<close>

lemma find_in_set: "find P xs = Some x \<Longrightarrow> x \<in> set xs"
  by (induction xs) (auto split: if_splits)

lemma subnet_row_found:
  "get_subnet_dhcp_options_for_port ipv gs port v = Some row \<Longrightarrow>
     row \<in> set (gs (port_subnets ipv port v))"
  by (auto simp: get_subnet_dhcp_options_for_port_def Let_def
      split: list.splits if_splits option.splits dest: find_in_set)

lemma subnet_row_none_iff:
  "get_subnet_dhcp_options_for_port ipv gs port v = None \<longleftrightarrow>
     gs (port_subnets ipv port v) = []"
  by (auto simp: get_subnet_dhcp_options_for_port_def Let_def
      split: list.splits if_splits option.splits)

text \<open>
  Claim C4. \<open>get_port_dhcp_options\<close> returns \<^verbatim>\<open>None\<close> when DHCP is disabled for the port
  at the IP version, and when the database has no subnet-level row for the subnets of
  the port's fixed IPs of that version. With no extra options it returns one of the
  rows the database has for those subnets, unchanged, so that two such ports with the
  same subnets get the same row. With extra options it returns the pending command for
  a row with the subnet's options overridden by the port's, tagged with the port id.
\<close>

theorem port_dhcp_options_cases:
  "(fst (gl port v) \<longrightarrow> get_port_dhcp_options gl ipv gs port v = Inr DhcpNone) \<and>
   (gs (port_subnets ipv port v) = [] \<longrightarrow>
      get_port_dhcp_options gl ipv gs port v = Inr DhcpNone) \<and>
   (\<not> fst (gl port v) \<and> snd (gl port v) = [] \<and> gs (port_subnets ipv port v) \<noteq> [] \<longrightarrow>
      (\<exists>row. row \<in> set (gs (port_subnets ipv port v)) \<and>
         get_subnet_dhcp_options_for_port ipv gs port v = Some row \<and>
         get_port_dhcp_options gl ipv gs port v = Inr (DhcpRow row))) \<and>
   (\<not> fst (gl port v) \<and> snd (gl port v) = [] \<and>
    \<not> fst (gl port' v) \<and> snd (gl port' v) = [] \<and>
    port_subnets ipv port v = port_subnets ipv port' v \<longrightarrow>
      get_port_dhcp_options gl ipv gs port v = get_port_dhcp_options gl ipv gs port' v) \<and>
   (\<not> fst (gl port v) \<and> snd (gl port v) \<noteq> [] \<and>
    get_subnet_dhcp_options_for_port ipv gs port v = Some row \<and>
    external_ids row ''subnet_id'' = Some sid \<longrightarrow>
      get_port_dhcp_options gl ipv gs port v =
        Inr (DhcpCmd (AddDhcpOptionsCommand sid (port_id port)
               \<lparr>cidr = cidr row,
                options = options row ++ map_of (snd (gl port v)),
                external_ids = (external_ids row)(''port_id'' \<mapsto> port_id port)\<rparr>)))"
proof (intro conjI impI)
  assume "fst (gl port v)"
  then show "get_port_dhcp_options gl ipv gs port v = Inr DhcpNone"
    by (cases "gl port v") (simp add: get_port_dhcp_options_def)
next
  assume "gs (port_subnets ipv port v) = []"
  then have "get_subnet_dhcp_options_for_port ipv gs port v = None"
    by (simp add: subnet_row_none_iff)
  then show "get_port_dhcp_options gl ipv gs port v = Inr DhcpNone"
    by (simp add: get_port_dhcp_options_def split: prod.splits)
next
  assume a: "\<not> fst (gl port v) \<and> snd (gl port v) = [] \<and> gs (port_subnets ipv port v) \<noteq> []"
  then obtain row where row: "get_subnet_dhcp_options_for_port ipv gs port v = Some row"
    using subnet_row_none_iff[of ipv gs port v] by (cases "get_subnet_dhcp_options_for_port ipv gs port v") auto
  with a have "get_port_dhcp_options gl ipv gs port v = Inr (DhcpRow row)"
    by (auto simp add: get_port_dhcp_options_def split: prod.splits)
  with row subnet_row_found[OF row]
  show "\<exists>row. row \<in> set (gs (port_subnets ipv port v)) \<and>
         get_subnet_dhcp_options_for_port ipv gs port v = Some row \<and>
         get_port_dhcp_options gl ipv gs port v = Inr (DhcpRow row)"
    by blast
next
  assume a: "\<not> fst (gl port v) \<and> snd (gl port v) = [] \<and>
    \<not> fst (gl port' v) \<and> snd (gl port' v) = [] \<and>
    port_subnets ipv port v = port_subnets ipv port' v"
  then have "get_subnet_dhcp_options_for_port ipv gs port v =
      get_subnet_dhcp_options_for_port ipv gs port' v"
    by (simp add: get_subnet_dhcp_options_for_port_def)
  with a show "get_port_dhcp_options gl ipv gs port v =
      get_port_dhcp_options gl ipv gs port' v"
    by (auto simp add: get_port_dhcp_options_def split: prod.splits option.splits)
next
  assume "\<not> fst (gl port v) \<and> snd (gl port v) \<noteq> [] \<and>
    get_subnet_dhcp_options_for_port ipv gs port v = Some row \<and>
    external_ids row ''subnet_id'' = Some sid"
  then show "get_port_dhcp_options gl ipv gs port v =
        Inr (DhcpCmd (AddDhcpOptionsCommand sid (port_id port)
               \<lparr>cidr = cidr row,
                options = options row ++ map_of (snd (gl port v)),
                external_ids = (external_ids row)(''port_id'' \<mapsto> port_id port)\<rparr>))"
    by (auto simp add: get_port_dhcp_options_def Let_def split: prod.splits)
qed

theorem port_dhcp_options_cases_witness:
  "get_port_dhcp_options dhcp_disabled version_by_colon rows_of_sub1 port0 4 = Inr DhcpNone \<and>
   get_port_dhcp_options no_extra_opts version_by_colon rows_of_sub1 port0 6 = Inr DhcpNone \<and>
   get_port_dhcp_options no_extra_opts version_by_colon rows_of_sub1 port0 4
     = Inr (DhcpRow row0) \<and>
   get_port_dhcp_options no_extra_opts version_by_colon rows_of_sub1
       (port0\<lparr>port_id := ''p2'', mac_address := ''fa:16:3e:00:00:02'',
          fixed_ips := [\<lparr>subnet_id = ''sub1'', ip_address = ''10.0.0.6''\<rparr>]\<rparr>) 4
     = Inr (DhcpRow row0) \<and>
   get_port_dhcp_options mtu_extra_opt version_by_colon rows_of_sub1 port0 4
     = Inr (DhcpCmd (AddDhcpOptionsCommand ''sub1'' ''p1''
         \<lparr>cidr = ''10.0.0.0/24'',
          options = [''server_id'' \<mapsto> ''10.0.0.1'', ''mtu'' \<mapsto> ''9000''],
          external_ids = [''subnet_id'' \<mapsto> ''sub1'', ''port_id'' \<mapsto> ''p1'']\<rparr>))"
  using
    port_dhcp_options_cases[of dhcp_disabled port0 4 version_by_colon rows_of_sub1 port0
      row0 "''sub1''"]
    port_dhcp_options_cases[of no_extra_opts port0 6 version_by_colon rows_of_sub1 port0
      row0 "''sub1''"]
    port_dhcp_options_cases[of no_extra_opts port0 4 version_by_colon rows_of_sub1
      "port0\<lparr>port_id := ''p2'', mac_address := ''fa:16:3e:00:00:02'',
          fixed_ips := [\<lparr>subnet_id = ''sub1'', ip_address = ''10.0.0.6''\<rparr>]\<rparr>"
      row0 "''sub1''"]
    port_dhcp_options_cases[of mtu_extra_opt port0 4 version_by_colon rows_of_sub1 port0
      row0 "''sub1''"]
  by (simp add: dhcp_disabled_def no_extra_opts_def mtu_extra_opt_def version_by_colon_def
      rows_of_sub1_def row0_def port0_def port_subnets_def
      get_subnet_dhcp_options_for_port_def get_port_dhcp_options_def IP_VERSION_6_def)

subsection \<open>Port binding\<close>

text \<open>
  On a chassis without the vhost-user datapath, the loop calls \<^verbatim>\<open>set_binding\<close> once for
  every segment that is not a flat or vlan segment of a physical network the chassis
  lacks, in the order of the segments.
\<close>

lemma bind_segments_ovs:
  "\<not> (dp = CHASSIS_DATAPATH_NETDEV \<and> CHASSIS_IFACE_DPDKVHOSTUSER \<in> set ifs) \<Longrightarrow>
   bind_segments conf dp ifs phys segs ctx =
     Inr (ctx\<lparr>set_binding_calls := set_binding_calls ctx @
            map (\<lambda>s. (segment_id s, VIF_TYPE_OVS,
                       driver_vif_details (sg_enabled conf) VIF_TYPE_OVS))
              (filter (\<lambda>s. \<not> (network_type s \<in> set [''flat'', ''vlan'']
                               \<and> physnet_absent (physical_network s) phys)) segs)\<rparr>)"
  by (induction segs arbitrary: ctx) (auto simp: bind_segment_def Let_def)

text \<open>With no such segment the context is returned as it was, and nothing is raised.\<close>

lemma bind_segments_none_eligible:
  "list_all (\<lambda>s. network_type s \<in> set [''flat'', ''vlan'']
                  \<and> physnet_absent (physical_network s) phys) segs \<Longrightarrow>
   bind_segments conf dp ifs phys segs ctx = Inr ctx"
  by (induction segs arbitrary: ctx) auto

lemma bind_port_only_vlan_absent:
  "bind_port conf0 chassis0
     (two_segment_context\<lparr>segments_to_bind :=
        [vlan_segment\<lparr>physical_network := Some ''physnet2''\<rparr>]\<rparr>)
   = Inr (two_segment_context\<lparr>segments_to_bind :=
        [vlan_segment\<lparr>physical_network := Some ''physnet2''\<rparr>]\<rparr>)"
  by (simp add: bind_port_def two_segment_context_def port0_def chassis0_def
      supported_vnic_types_def vlan_segment_def physnet_absent_def)

text \<open>
  Claim C1 does not hold of the code: the loop has no \<^verbatim>\<open>break\<close> after
  \<^verbatim>\<open>context.set_binding\<close>. Offered two geneve segments, both eligible, \<open>bind_port\<close>
  evaluates both and calls \<^verbatim>\<open>set_binding\<close> for the first and then for the second.
\<close>

theorem bind_port_binds_every_eligible_segment:
  "bind_port conf0 chassis0 two_segment_context =
     Inr (two_segment_context\<lparr>set_binding_calls :=
            [(''s3'', ''ovs'', [(''port_filter'', VBool True)]),
             (''s4'', ''ovs'', [(''port_filter'', VBool True)])]\<rparr>)"
  by (simp add: bind_port_def two_segment_context_def port0_def chassis0_def conf0_def
      supported_vnic_types_def geneve_segment_def physnet_absent_def bind_segment_def
      CHASSIS_DATAPATH_NETDEV_def driver_vif_details_def VIF_TYPE_OVS_def
      CAP_PORT_FILTER_def)

subsection \<open>Address sets on a port update\<close>

lemma dhcp_column_no_address_set:
  "filter is_address_set_cmd (fst (dhcp_column d)) = []"
  by (cases d) simp_all

lemma set_or_none_eq_None: "set_or_none s = AddrsNone \<longleftrightarrow> s = {}"
  by (simp add: set_or_none_def)

lemma address_set_cmd_names:
  "c \<in> set (update_address_set_cmds h original_port port) \<Longrightarrow>
   \<exists>sg_id ip_ver a r.
      sg_id \<in> set (get_lsp_security_groups h original_port)
                \<union> set (get_lsp_security_groups h port) \<and>
      ip_ver \<in> set ip_versions \<and>
      c = UpdateAddressSet (ovn_addrset_name h sg_id ip_ver) a r None"
  by (auto simp: update_address_set_cmds_def Let_def py_set_def split: if_splits)

lemma address_set_cmds_all:
  "filter is_address_set_cmd (update_address_set_cmds h original_port port) =
     update_address_set_cmds h original_port port"
  by (auto simp: filter_id_conv dest: address_set_cmd_names)

lemma address_set_cmds_of_update:
  "filter is_address_set_cmd (update_port_in_ovn_cmds h original_port port info) =
     update_address_set_cmds h original_port port"
  by (simp add: update_port_in_ovn_cmds_def Let_def dhcp_column_no_address_set
      address_set_cmds_all)

text \<open>
  With the same security groups before and after and changed fixed IPs, the
  address-set commands are those of the unchanged groups.
\<close>

lemma unchanged_groups_cmds:
  assumes "set (get_lsp_security_groups h original_port) =
           set (get_lsp_security_groups h port)"
    and "fixed_ips original_port \<noteq> fixed_ips port"
    and "fixed_ips port \<noteq> [] \<or> fixed_ips original_port \<noteq> []"
  shows "update_address_set_cmds h original_port port =
     concat (map (\<lambda>sg_id.
       concat (map (\<lambda>ip_ver.
         if set (ips_at (acl_port_ips h port) ip_ver)
              - set (ips_at (acl_port_ips h original_port) ip_ver) \<noteq> {}
            \<or> set (ips_at (acl_port_ips h original_port) ip_ver)
              - set (ips_at (acl_port_ips h port) ip_ver) \<noteq> {}
         then [UpdateAddressSet (ovn_addrset_name h sg_id ip_ver)
                 (set_or_none (set (ips_at (acl_port_ips h port) ip_ver)
                    - set (ips_at (acl_port_ips h original_port) ip_ver)))
                 (set_or_none (set (ips_at (acl_port_ips h original_port) ip_ver)
                    - set (ips_at (acl_port_ips h port) ip_ver)))
                 None]
         else []) ip_versions))
       (remdups (get_lsp_security_groups h port)))"
proof -
  have detached: "filter (\<lambda>x. x \<notin> set (get_lsp_security_groups h port))
          (remdups (get_lsp_security_groups h original_port)) = []"
    using assms(1) by (simp add: filter_empty_conv)
  have attached: "filter (\<lambda>x. x \<notin> set (get_lsp_security_groups h original_port))
          (remdups (get_lsp_security_groups h port)) = []"
    using assms(1) by (simp add: filter_empty_conv)
  have unchanged: "filter (\<lambda>x. x \<in> set (get_lsp_security_groups h original_port))
          (remdups (get_lsp_security_groups h port)) = remdups (get_lsp_security_groups h port)"
    using assms(1) by (simp add: filter_id_conv)
  show ?thesis
    using assms(2,3)
    by (simp add: update_address_set_cmds_def Let_def py_set_def detached attached
        unchanged set_or_none_eq_None)
qed


lemma length_version_cmds:
  "length (concat (map (\<lambda>v. if P v then [f v] else []) vs)) = length (filter P vs)"
  by (induction vs) auto

lemma length_group_cmds:
  "length (concat (map (\<lambda>sg. concat (map (\<lambda>v. if P v then [f sg v] else []) vs)) sgs))
     = length sgs * length (filter P vs)"
  by (induction sgs) (auto simp: length_version_cmds)

text \<open>
  Claim C2. When the set of security groups of the port is unchanged, the fixed IPs
  changed and one of the two lists of fixed IPs is not empty, the address-set commands
  of \<open>update_port_in_ovn_cmds\<close> are, for each security group and each IP version
  for which the new addresses without the old or the old without the new are not
  empty, one update of the address set of the group and version that adds the first
  set and removes the second, and no other. Whatever the update, every address-set
  command is for an address set of a group the port was in or is in.
\<close>

theorem unchanged_groups_address_sets:
  "(set (get_lsp_security_groups h original_port) = set (get_lsp_security_groups h port) \<and>
    fixed_ips original_port \<noteq> fixed_ips port \<and>
    (fixed_ips port \<noteq> [] \<or> fixed_ips original_port \<noteq> []) \<longrightarrow>
      set (filter is_address_set_cmd (update_port_in_ovn_cmds h original_port port info)) =
        {UpdateAddressSet (ovn_addrset_name h sg_id ip_ver)
           (set_or_none (set (ips_at (acl_port_ips h port) ip_ver)
              - set (ips_at (acl_port_ips h original_port) ip_ver)))
           (set_or_none (set (ips_at (acl_port_ips h original_port) ip_ver)
              - set (ips_at (acl_port_ips h port) ip_ver)))
           None
         | sg_id ip_ver.
           sg_id \<in> set (get_lsp_security_groups h port) \<and> ip_ver \<in> set ip_versions \<and>
           (set (ips_at (acl_port_ips h port) ip_ver)
              - set (ips_at (acl_port_ips h original_port) ip_ver) \<noteq> {}
            \<or> set (ips_at (acl_port_ips h original_port) ip_ver)
              - set (ips_at (acl_port_ips h port) ip_ver) \<noteq> {})} \<and>
      length (filter is_address_set_cmd (update_port_in_ovn_cmds h original_port port info)) =
        length (remdups (get_lsp_security_groups h port)) *
        length (filter (\<lambda>ip_ver.
                  set (ips_at (acl_port_ips h port) ip_ver)
                    - set (ips_at (acl_port_ips h original_port) ip_ver) \<noteq> {}
                  \<or> set (ips_at (acl_port_ips h original_port) ip_ver)
                    - set (ips_at (acl_port_ips h port) ip_ver) \<noteq> {}) ip_versions)) \<and>
   (\<forall>c \<in> set (update_port_in_ovn_cmds h original_port port info).
      is_address_set_cmd c \<longrightarrow>
        (\<exists>sg_id ip_ver a r.
           sg_id \<in> set (get_lsp_security_groups h original_port)
                     \<union> set (get_lsp_security_groups h port) \<and>
           ip_ver \<in> set ip_versions \<and>
           c = UpdateAddressSet (ovn_addrset_name h sg_id ip_ver) a r None))"
proof (intro conjI impI ballI)
  assume a: "set (get_lsp_security_groups h original_port) =
               set (get_lsp_security_groups h port) \<and>
    fixed_ips original_port \<noteq> fixed_ips port \<and>
    (fixed_ips port \<noteq> [] \<or> fixed_ips original_port \<noteq> [])"
  then have a1: "set (get_lsp_security_groups h original_port) =
               set (get_lsp_security_groups h port)"
    and a2: "fixed_ips original_port \<noteq> fixed_ips port"
    and a3: "fixed_ips port \<noteq> [] \<or> fixed_ips original_port \<noteq> []"
    by simp_all
  have cmds: "filter is_address_set_cmd
        (update_port_in_ovn_cmds h original_port port info) =
     concat (map (\<lambda>sg_id.
       concat (map (\<lambda>ip_ver.
         if set (ips_at (acl_port_ips h port) ip_ver)
              - set (ips_at (acl_port_ips h original_port) ip_ver) \<noteq> {}
            \<or> set (ips_at (acl_port_ips h original_port) ip_ver)
              - set (ips_at (acl_port_ips h port) ip_ver) \<noteq> {}
         then [UpdateAddressSet (ovn_addrset_name h sg_id ip_ver)
                 (set_or_none (set (ips_at (acl_port_ips h port) ip_ver)
                    - set (ips_at (acl_port_ips h original_port) ip_ver)))
                 (set_or_none (set (ips_at (acl_port_ips h original_port) ip_ver)
                    - set (ips_at (acl_port_ips h port) ip_ver)))
                 None]
         else []) ip_versions))
       (remdups (get_lsp_security_groups h port)))"
    unfolding address_set_cmds_of_update by (rule unchanged_groups_cmds[OF a1 a2 a3])
  show "set (filter is_address_set_cmd (update_port_in_ovn_cmds h original_port port info)) =
        {UpdateAddressSet (ovn_addrset_name h sg_id ip_ver)
           (set_or_none (set (ips_at (acl_port_ips h port) ip_ver)
              - set (ips_at (acl_port_ips h original_port) ip_ver)))
           (set_or_none (set (ips_at (acl_port_ips h original_port) ip_ver)
              - set (ips_at (acl_port_ips h port) ip_ver)))
           None
         | sg_id ip_ver.
           sg_id \<in> set (get_lsp_security_groups h port) \<and> ip_ver \<in> set ip_versions \<and>
           (set (ips_at (acl_port_ips h port) ip_ver)
              - set (ips_at (acl_port_ips h original_port) ip_ver) \<noteq> {}
            \<or> set (ips_at (acl_port_ips h original_port) ip_ver)
              - set (ips_at (acl_port_ips h port) ip_ver) \<noteq> {})}"
    unfolding cmds by (auto split: if_splits)
  show "length (filter is_address_set_cmd
          (update_port_in_ovn_cmds h original_port port info)) =
        length (remdups (get_lsp_security_groups h port)) *
        length (filter (\<lambda>ip_ver.
                  set (ips_at (acl_port_ips h port) ip_ver)
                    - set (ips_at (acl_port_ips h original_port) ip_ver) \<noteq> {}
                  \<or> set (ips_at (acl_port_ips h original_port) ip_ver)
                    - set (ips_at (acl_port_ips h port) ip_ver) \<noteq> {}) ip_versions)"
    unfolding cmds by (rule length_group_cmds)
next
  fix c
  assume "c \<in> set (update_port_in_ovn_cmds h original_port port info)"
    and "is_address_set_cmd c"
  then have "c \<in> set (filter is_address_set_cmd
                        (update_port_in_ovn_cmds h original_port port info))"
    by simp
  then have "c \<in> set (update_address_set_cmds h original_port port)"
    by (simp only: address_set_cmds_of_update)
  then show "\<exists>sg_id ip_ver a r.
           sg_id \<in> set (get_lsp_security_groups h original_port)
                     \<union> set (get_lsp_security_groups h port) \<and>
           ip_ver \<in> set ip_versions \<and>
           c = UpdateAddressSet (ovn_addrset_name h sg_id ip_ver) a r None"
    by (rule address_set_cmd_names)
qed

theorem unchanged_groups_address_sets_witness:
  "filter is_address_set_cmd (update_port_in_ovn_cmds h0 port0 port0_moved info0) =
     [UpdateAddressSet ''as_ip4_sgA'' (AddrsSet {''10.0.0.6''}) (AddrsSet {''10.0.0.5''}) None]"
  using unchanged_groups_address_sets[of h0 port0 port0_moved info0]
  by (simp add: address_set_cmds_of_update update_address_set_cmds_def Let_def py_set_def
      h0_def groups_by_name_def port0_def port0_moved_def version_by_colon_def
      ip_versions_def ips_at_def set_or_none_def)

subsection \<open>Address sets on port creation\<close>

lemma exec_cmd_dom:
  "exec_cmd nb c = Inr nb' \<Longrightarrow> dom (address_sets nb') = dom (address_sets nb)"
  by (cases c) (auto split: if_splits option.splits)

lemma exec_cmds_dom:
  "exec_cmds nb cs = Inr nb' \<Longrightarrow> dom (address_sets nb') = dom (address_sets nb)"
proof (induction cs arbitrary: nb)
  case Nil
  then show ?case by simp
next
  case (Cons c cs)
  then show ?case
    by (auto split: sum.splits dest!: exec_cmd_dom)
qed

text \<open>
  A transaction with an update, marked \<^verbatim>\<open>if_exists=False\<close>, of an address set the
  database does not have fails.
\<close>

lemma exec_cmds_missing_set:
  "UpdateAddressSet n a r (Some False) \<in> set cs \<Longrightarrow> address_sets nb n = None \<Longrightarrow>
   \<exists>e. exec_cmds nb cs = Inl e"
proof (induction cs arbitrary: nb)
  case Nil
  then show ?case by simp
next
  case (Cons c cs)
  show ?case
  proof (cases "exec_cmd nb c")
    case (Inl e)
    then show ?thesis by simp
  next
    case (Inr nb1)
    have "c \<noteq> UpdateAddressSet n a r (Some False)"
      using Inr Cons.prems(2) by auto
    then have in_cs: "UpdateAddressSet n a r (Some False) \<in> set cs"
      using Cons.prems(1) by simp
    have "address_sets nb1 n = None"
      using exec_cmd_dom[OF Inr] Cons.prems(2) by (metis domIff)
    from Cons.IH[OF in_cs this] show ?thesis
      using Inr by simp
  qed
qed

lemma update_fst_set: "fst ` set (AList.update k v al) = insert k (fst ` set al)"
proof -
  have "set (map fst (AList.update k v al)) = insert k (set (map fst al))"
    by (auto simp add: update_keys)
  then show ?thesis by simp
qed

lemma exec_cmd_ports:
  "exec_cmd nb c = Inr nb' \<Longrightarrow> fst ` set (lswitch_ports nb) \<subseteq> fst ` set (lswitch_ports nb')"
proof (cases c)
  case (SetLswitchPort cols extra)
  assume "exec_cmd nb c = Inr nb'"
  with SetLswitchPort have "lswitch_ports nb' = AList.update (lport_name cols) cols (lswitch_ports nb)"
    by (auto split: if_splits)
  then show ?thesis by (simp only: update_fst_set) blast
next
  case (UpdateAddressSet n a r e)
  assume "exec_cmd nb c = Inr nb'"
  with UpdateAddressSet have "lswitch_ports nb' = lswitch_ports nb"
    by (auto split: if_splits option.splits)
  then show ?thesis by simp
qed auto

lemma exec_cmds_ports:
  "exec_cmds nb cs = Inr nb' \<Longrightarrow> fst ` set (lswitch_ports nb) \<subseteq> fst ` set (lswitch_ports nb')"
proof (induction cs arbitrary: nb)
  case Nil
  then show ?case by simp
next
  case (Cons c cs)
  from Cons.prems obtain nb1 where nb1: "exec_cmd nb c = Inr nb1" "exec_cmds nb1 cs = Inr nb'"
    by (auto split: sum.splits)
  from exec_cmd_ports[OF nb1(1)] Cons.IH[OF nb1(2)] show ?case by blast
qed

lemma exec_cmds_port_created:
  "CreateLswitchPort sw cols ty addrs \<in> set cs \<Longrightarrow> exec_cmds nb cs = Inr nb' \<Longrightarrow>
   lport_name cols \<in> fst ` set (lswitch_ports nb')"
proof (induction cs arbitrary: nb)
  case Nil
  then show ?case by simp
next
  case (Cons c cs)
  from Cons.prems(2) obtain nb1 where nb1: "exec_cmd nb c = Inr nb1" "exec_cmds nb1 cs = Inr nb'"
    by (auto split: sum.splits)
  show ?case
  proof (cases "c = CreateLswitchPort sw cols ty addrs")
    case True
    then have "lswitch_ports nb1 = (lport_name cols, cols) # lswitch_ports nb"
      using nb1(1) by auto
    then have "lport_name cols \<in> fst ` set (lswitch_ports nb1)"
      by simp
    then show ?thesis using exec_cmds_ports[OF nb1(2)] by blast
  next
    case False
    then have "CreateLswitchPort sw cols ty addrs \<in> set cs"
      using Cons.prems(1) by simp
    from Cons.IH[OF this nb1(2)] show ?thesis .
  qed
qed

text \<open>Updates that remove nothing only let the address sets grow.\<close>

lemma exec_cmd_grows:
  "exec_cmd nb c = Inr nb' \<Longrightarrow> removes_nothing c \<Longrightarrow> address_sets nb n = Some s \<Longrightarrow>
   \<exists>s'. address_sets nb' n = Some s' \<and> s \<subseteq> s'"
  by (cases c) (auto split: if_splits option.splits)

lemma exec_cmds_grows:
  "exec_cmds nb cs = Inr nb' \<Longrightarrow> list_all removes_nothing cs \<Longrightarrow>
   address_sets nb n = Some s \<Longrightarrow>
   \<exists>s'. address_sets nb' n = Some s' \<and> s \<subseteq> s'"
proof (induction cs arbitrary: nb s)
  case Nil
  then show ?case by simp
next
  case (Cons c cs)
  from Cons.prems(1) obtain nb1 where nb1: "exec_cmd nb c = Inr nb1" "exec_cmds nb1 cs = Inr nb'"
    by (auto split: sum.splits)
  from Cons.prems(2) have c: "removes_nothing c" and cs: "list_all removes_nothing cs"
    by simp_all
  from exec_cmd_grows[OF nb1(1) c Cons.prems(3)]
  obtain s1 where s1: "address_sets nb1 n = Some s1" "s \<subseteq> s1"
    by blast
  from Cons.IH[OF nb1(2) cs s1(1)]
  obtain s' where "address_sets nb' n = Some s'" "s1 \<subseteq> s'"
    by blast
  with s1(2) show ?case by blast
qed

lemma exec_cmds_added:
  "UpdateAddressSet n (AddrsList xs) AddrsNone (Some False) \<in> set cs \<Longrightarrow>
   list_all removes_nothing cs \<Longrightarrow> exec_cmds nb cs = Inr nb' \<Longrightarrow>
   \<exists>s. address_sets nb' n = Some s \<and> set xs \<subseteq> s"
proof (induction cs arbitrary: nb)
  case Nil
  then show ?case by simp
next
  case (Cons c cs)
  from Cons.prems(3) obtain nb1 where nb1: "exec_cmd nb c = Inr nb1" "exec_cmds nb1 cs = Inr nb'"
    by (auto split: sum.splits)
  from Cons.prems(2) have rest: "list_all removes_nothing cs"
    by simp
  show ?case
  proof (cases "c = UpdateAddressSet n (AddrsList xs) AddrsNone (Some False)")
    case True
    with nb1(1) obtain s1 where s1: "address_sets nb1 n = Some s1" "set xs \<subseteq> s1"
      by (auto split: option.splits if_splits)
    from exec_cmds_grows[OF nb1(2) rest s1(1)] s1(2) show ?thesis
      by blast
  next
    case False
    then have "UpdateAddressSet n (AddrsList xs) AddrsNone (Some False) \<in> set cs"
      using Cons.prems(1) by simp
    from Cons.IH[OF this rest nb1(2)] show ?thesis .
  qed
qed

text \<open>The address-set commands of \<open>create_port_in_ovn_cmds\<close>.\<close>

lemma create_cmds_address_sets:
  "c \<in> set (create_port_in_ovn_cmds h port info) \<Longrightarrow> is_address_set_cmd c \<Longrightarrow>
   \<exists>sg_id ip_ver. sg_id \<in> set (get_lsp_security_groups h port) \<and> ip_ver \<in> set ip_versions \<and>
      ips_at (acl_port_ips h port) ip_ver \<noteq> [] \<and>
      c = UpdateAddressSet (ovn_addrset_name h sg_id ip_ver)
            (AddrsList (ips_at (acl_port_ips h port) ip_ver)) AddrsNone (Some False)"
  by (cases "info_dhcpv4_options info"; cases "info_dhcpv6_options info")
     (auto simp: create_port_in_ovn_cmds_def Let_def split: if_splits)

lemma create_cmds_has_update:
  "fixed_ips port \<noteq> [] \<Longrightarrow> sg_id \<in> set (get_lsp_security_groups h port) \<Longrightarrow>
   ip_ver \<in> set ip_versions \<Longrightarrow> ips_at (acl_port_ips h port) ip_ver \<noteq> [] \<Longrightarrow>
   UpdateAddressSet (ovn_addrset_name h sg_id ip_ver)
       (AddrsList (ips_at (acl_port_ips h port) ip_ver)) AddrsNone (Some False)
     \<in> set (create_port_in_ovn_cmds h port info)"
  by (auto simp: create_port_in_ovn_cmds_def Let_def)

lemma create_cmds_has_port:
  "\<exists>sw cols ty addrs. lport_name cols = port_id port \<and>
     CreateLswitchPort sw cols ty addrs \<in> set (create_port_in_ovn_cmds h port info)"
  by (intro exI[of _ "ovn_name h (network_id port)"]
        exI[of _ "\<lparr>lport_name = port_id port,
               lsp_external_ids = [(OVN_PORT_NAME_EXT_ID_KEY, port_name port)],
               lsp_parent_name = info_parent_name info,
               lsp_tag = info_tag info, lsp_options = info_options info,
               lsp_enabled = admin_state_up port,
               lsp_port_security = info_port_security info,
               lsp_dhcpv4_options = snd (dhcp_column (info_dhcpv4_options info)),
               lsp_dhcpv6_options = snd (dhcp_column (info_dhcpv6_options info))\<rparr>"]
        exI[of _ "info_type info"] exI[of _ "info_addresses info"])
     (simp add: create_port_in_ovn_cmds_def Let_def)

lemma create_cmds_remove_nothing:
  "list_all removes_nothing (create_port_in_ovn_cmds h port info)"
  by (cases "info_dhcpv4_options info"; cases "info_dhcpv6_options info")
     (auto simp: create_port_in_ovn_cmds_def Let_def list_all_iff split: if_splits)

text \<open>
  Claim C9. Every address-set command \<open>create_port_in_ovn\<close> adds to its transaction
  removes nothing and carries \<^verbatim>\<open>if_exists=False\<close>. For a port with fixed IPs, if the
  database lacks the address set of one of the port's security groups for an IP version
  at which the port has addresses, \<open>create_port_in_ovn\<close> (and with it
  \<open>create_port_postcommit\<close>) fails and leaves the database as it was, the logical
  switch port included. If it succeeds, the logical switch port is in the database and
  each such address set holds the port's addresses of the version.
\<close>

theorem create_port_needs_address_sets:
  "(\<forall>c \<in> set (create_port_in_ovn_cmds h port info).
       is_address_set_cmd c \<longrightarrow> (\<exists>n a. c = UpdateAddressSet n a AddrsNone (Some False))) \<and>
   (fixed_ips port \<noteq> [] \<and> sg_id \<in> set (get_lsp_security_groups h port) \<and>
    ip_ver \<in> set ip_versions \<and> ips_at (acl_port_ips h port) ip_ver \<noteq> [] \<and>
    address_sets nb (ovn_addrset_name h sg_id ip_ver) = None \<longrightarrow>
      (\<exists>e. create_port_in_ovn h check_lswitch nb port info = (Inl e, nb)) \<and>
      (current context = port \<longrightarrow>
         (\<exists>e. create_port_postcommit h check_lswitch get_info nb context = (Inl e, nb)))) \<and>
   (create_port_in_ovn h check_lswitch nb port info = (Inr (), nb') \<longrightarrow>
      port_id port \<in> fst ` set (lswitch_ports nb') \<and>
      (fixed_ips port \<noteq> [] \<longrightarrow>
         (\<forall>g \<in> set (get_lsp_security_groups h port). \<forall>v \<in> set ip_versions.
            ips_at (acl_port_ips h port) v \<noteq> [] \<longrightarrow>
              (\<exists>s. address_sets nb' (ovn_addrset_name h g v) = Some s \<and>
                   set (ips_at (acl_port_ips h port) v) \<subseteq> s))))"
proof (intro conjI impI ballI)
  fix c
  assume "c \<in> set (create_port_in_ovn_cmds h port info)" "is_address_set_cmd c"
  from create_cmds_address_sets[OF this]
  show "\<exists>n a. c = UpdateAddressSet n a AddrsNone (Some False)"
    by blast
next
  assume a: "fixed_ips port \<noteq> [] \<and> sg_id \<in> set (get_lsp_security_groups h port) \<and>
    ip_ver \<in> set ip_versions \<and> ips_at (acl_port_ips h port) ip_ver \<noteq> [] \<and>
    address_sets nb (ovn_addrset_name h sg_id ip_ver) = None"
  have fails_any: "\<exists>e. create_port_in_ovn h check_lswitch nb port i = (Inl e, nb)" for i
  proof -
    from a have "UpdateAddressSet (ovn_addrset_name h sg_id ip_ver)
         (AddrsList (ips_at (acl_port_ips h port) ip_ver)) AddrsNone (Some False)
       \<in> set (create_port_in_ovn_cmds h port i)"
      by (simp add: create_cmds_has_update)
    from exec_cmds_missing_set[OF this] a
    obtain e where "exec_cmds nb (create_port_in_ovn_cmds h port i) = Inl e"
      by blast
    then show ?thesis
      by (cases "check_lswitch nb (ovn_name h (network_id port))")
         (simp_all add: create_port_in_ovn_def transaction_def)
  qed
  show "\<exists>e. create_port_in_ovn h check_lswitch nb port info = (Inl e, nb)"
    by (rule fails_any)
  {
    assume "current context = port"
    then show "\<exists>e. create_port_postcommit h check_lswitch get_info nb context = (Inl e, nb)"
      using fails_any by (cases "get_info port") (simp_all add: create_port_postcommit_def)
  }
next
  assume ok: "create_port_in_ovn h check_lswitch nb port info = (Inr (), nb')"
  then have run: "exec_cmds nb (create_port_in_ovn_cmds h port info) = Inr nb'"
    by (auto simp: create_port_in_ovn_def transaction_def split: sum.splits)
  from create_cmds_has_port[of port h info] exec_cmds_port_created[OF _ run]
  show "port_id port \<in> fst ` set (lswitch_ports nb')"
    by metis
  {
    fix g v
    assume "fixed_ips port \<noteq> []" "g \<in> set (get_lsp_security_groups h port)"
      "v \<in> set ip_versions" "ips_at (acl_port_ips h port) v \<noteq> []"
    from exec_cmds_added[OF create_cmds_has_update[OF this] create_cmds_remove_nothing run]
    show "\<exists>s. address_sets nb' (ovn_addrset_name h g v) = Some s \<and>
                   set (ips_at (acl_port_ips h port) v) \<subseteq> s" .
  }
qed

theorem create_port_needs_address_sets_witness:
  "create_port_in_ovn h0 lswitch_present nb0 port0 info0 = (Inl RuntimeError, nb0) \<and>
   create_port_postcommit h0 lswitch_present (\<lambda>p. Inr info0) nb0 (context0 port0)
     = (Inl RuntimeError, nb0) \<and>
   fst (create_port_in_ovn h0 lswitch_present nb_with_sgA port0 info0) = Inr () \<and>
   address_sets (snd (create_port_in_ovn h0 lswitch_present nb_with_sgA port0 info0))
       ''as_ip4_sgA'' = Some {''10.0.0.5''} \<and>
   map fst (lswitch_ports (snd (create_port_in_ovn h0 lswitch_present nb_with_sgA port0 info0)))
     = [''p1'']"
  using create_port_needs_address_sets[of h0 port0 info0 "''sgA''" "''ip4''" nb0
          lswitch_present "context0 port0" "\<lambda>p. Inr info0"
          "snd (create_port_in_ovn h0 lswitch_present nb0 port0 info0)"]
    create_port_needs_address_sets[of h0 port0 info0 "''sgA''" "''ip4''" nb_with_sgA
          lswitch_present "context0 port0" "\<lambda>p. Inr info0"
          "snd (create_port_in_ovn h0 lswitch_present nb_with_sgA port0 info0)"]
  by (simp add: create_port_in_ovn_def create_port_postcommit_def transaction_def
      create_port_in_ovn_cmds_def Let_def h0_def groups_by_name_def port0_def info0_def
      context0_def nb0_def nb_with_sgA_def lswitch_present_def version_by_colon_def
      ip_versions_def ips_at_def)

end
